theory Spec2Isabelle
  imports Main "HOL-Library.AList"
begin

section \<open>Python values used by the rotation handlers\<close>

text \<open>
  The two handlers (\<^verbatim>\<open>postgres/single/lambda_function.py\<close> and
  \<^verbatim>\<open>mariadb/single/lambda_function.py\<close>) work on the dictionary that
  \<^verbatim>\<open>json.loads\<close> returns for a secret payload. The fields of a credential record are
  JSON scalars: null, booleans, integers and strings (floats and nested containers do not
  occur in the wire format and are left out). A string is the list of its UTF-8 bytes.
  A dictionary is an association list in insertion order; \<open>map_of\<close> reads it,
  \<open>AList.update\<close> is \<^verbatim>\<open>d[k] = v\<close> and \<open>AList.delete\<close> is \<^verbatim>\<open>d.pop(k, None)\<close>.
\<close>

datatype json = JNull | JBool bool | JInt int | JStr string

type_synonym secret_dict = "(string \<times> json) list"

datatype engine = Postgres | MariaDB

datatype key_error =
    NoKey string            \<comment> \<open>subscript of a key the dictionary does not have\<close>
  | MissingField string     \<comment> \<open>"%s key is missing from secret JSON"\<close>
  | BadEngine               \<comment> \<open>"Database engine must be set to ..."\<close>

datatype value_error =
    RotationDisabled        \<comment> \<open>"Secret %s is not enabled for rotation"\<close>
  | NoStage                 \<comment> \<open>"Secret version %s has no stage for rotation of secret %s."\<close>
  | NotPending              \<comment> \<open>"Secret version %s not set as AWSPENDING ..."\<close>
  | InvalidStep             \<comment> \<open>"Invalid step parameter %s for secret %s"\<close>
  | UserNotCurrent          \<comment> \<open>"Attempting to modify user %s other than current user %s"\<close>
  | HostNotCurrent          \<comment> \<open>"Attempting to modify user for host %s other than current host %s"\<close>
  | UserNotPrevious         \<comment> \<open>"Attempting to modify user %s other than last valid user %s"\<close>
  | HostNotPrevious         \<comment> \<open>"Attempting to modify user for host %s other than previous host %s"\<close>
  | UnableToLogin           \<comment> \<open>"Unable to log into database with previous, current, or pending secret ..."\<close>
  | UnableToLoginPending    \<comment> \<open>"Unable to log into database with pending secret of secret ARN %s"\<close>
  | JSONDecodeError         \<comment> \<open>\<^verbatim>\<open>json.loads\<close> on a payload that is not JSON\<close>
  | InvalidLiteral          \<comment> \<open>\<^verbatim>\<open>int(s)\<close> on a string that is not a decimal literal\<close>

datatype error =
    ResourceNotFoundException
  | KeyError key_error
  | ValueError value_error
  | TypeError
  | ParamValidationError
  | InvalidParameterException
  | DriverError

subsection \<open>\<^verbatim>\<open>str.lower\<close>, \<^verbatim>\<open>str\<close>, \<^verbatim>\<open>int\<close>\<close>

text \<open>
  \<^verbatim>\<open>str.lower\<close> on the ASCII letters. The handlers only compare a lowered string with
  the ASCII words true, false, 1, y and yes, and no character outside ASCII lowers to a
  letter of these words, so the comparison has the same outcome as in Python.
\<close>

definition lower_char :: "char \<Rightarrow> char" where
  "lower_char c =
     (case map_of (zip ''ABCDEFGHIJKLMNOPQRSTUVWXYZ'' ''abcdefghijklmnopqrstuvwxyz'') c of
        None \<Rightarrow> c
      | Some l \<Rightarrow> l)"

definition lower :: "string \<Rightarrow> string" where
  "lower s = map lower_char s"

fun str_of_nat :: "nat \<Rightarrow> string" where
  "str_of_nat n =
     (if n < 10 then [''0123456789'' ! n]
      else str_of_nat (n div 10) @ [''0123456789'' ! (n mod 10)])"

declare str_of_nat.simps [simp del]

definition str_of_int :: "int \<Rightarrow> string" where
  "str_of_int i = (if i < 0 then CHR ''-'' # str_of_nat (nat (- i)) else str_of_nat (nat i))"

text \<open>\<^verbatim>\<open>str(v)\<close>, which is also what \<^verbatim>\<open>%s\<close> and an f-string field render.\<close>

fun py_str :: "json \<Rightarrow> string" where
  "py_str JNull = ''None''"
| "py_str (JBool True) = ''True''"
| "py_str (JBool False) = ''False''"
| "py_str (JInt i) = str_of_int i"
| "py_str (JStr s) = s"

text \<open>
  \<^verbatim>\<open>int(s)\<close> for a string: surrounding ASCII whitespace is stripped, one sign is allowed,
  then decimal digits follow, where single underscores may separate digits.
\<close>

definition is_space :: "char \<Rightarrow> bool" where
  "is_space c = (c \<in> set [CHR '' '', CHR 0x09, CHR 0x0A, CHR 0x0B, CHR 0x0C, CHR 0x0D,
                           CHR 0x1C, CHR 0x1D, CHR 0x1E, CHR 0x1F])"

definition digit_val :: "char \<Rightarrow> nat option" where
  "digit_val c = map_of (zip ''0123456789'' [0, 1, 2, 3, 4, 5, 6, 7, 8, 9]) c"

text \<open>
  \<open>digits acc after_digit s\<close>: \<open>after_digit\<close> tells whether the previous character
  was a digit, the only place where an underscore or the end may come.
\<close>

fun digits :: "nat \<Rightarrow> bool \<Rightarrow> string \<Rightarrow> nat option" where
  "digits acc after_digit [] = (if after_digit then Some acc else None)"
| "digits acc after_digit (c # cs) =
     (case digit_val c of
        Some d \<Rightarrow> digits (10 * acc + d) True cs
      | None \<Rightarrow> if c = CHR ''_'' \<and> after_digit then digits acc False cs else None)"

definition strip :: "string \<Rightarrow> string" where
  "strip s = rev (dropWhile is_space (rev (dropWhile is_space s)))"

definition int_of_str :: "string \<Rightarrow> error + int" where
  "int_of_str s =
     (case strip s of
        [] \<Rightarrow> Inl (ValueError InvalidLiteral)
      | c # cs \<Rightarrow>
          if c = CHR ''-'' then
            (case digits 0 False cs of None \<Rightarrow> Inl (ValueError InvalidLiteral)
                                     | Some n \<Rightarrow> Inr (- int n))
          else if c = CHR ''+'' then
            (case digits 0 False cs of None \<Rightarrow> Inl (ValueError InvalidLiteral)
                                     | Some n \<Rightarrow> Inr (int n))
          else
            (case digits 0 False (c # cs) of None \<Rightarrow> Inl (ValueError InvalidLiteral)
                                           | Some n \<Rightarrow> Inr (int n)))"

text \<open>\<^verbatim>\<open>int(v)\<close> for a JSON scalar.\<close>

fun py_int :: "json \<Rightarrow> error + int" where
  "py_int JNull = Inl TypeError"
| "py_int (JBool b) = Inr (if b then 1 else 0)"
| "py_int (JInt i) = Inr i"
| "py_int (JStr s) = int_of_str s"

subsection \<open>\<^verbatim>\<open>urllib.parse.quote_plus\<close>\<close>

text \<open>
  \<^verbatim>\<open>quote_plus(s)\<close> with its default arguments: the letters, the digits and the four
  characters \<^verbatim>\<open>_.-~\<close> are kept, a space becomes a plus sign, and every other byte of the
  UTF-8 encoding becomes a percent sign and two upper-case hexadecimal digits.
\<close>

definition always_safe :: "char \<Rightarrow> bool" where
  "always_safe c =
     (c \<in> set ''ABCDEFGHIJKLMNOPQRSTUVWXYZabcdefghijklmnopqrstuvwxyz0123456789_.-~'')"

definition hex_digit :: "nat \<Rightarrow> char" where
  "hex_digit n = ''0123456789ABCDEF'' ! n"

definition quote_char :: "char \<Rightarrow> string" where
  "quote_char c =
     (if always_safe c then [c]
      else if c = CHR '' '' then ''+''
      else [CHR ''%'', hex_digit (of_char c div 16), hex_digit (of_char c mod 16)])"

definition quote_plus :: "string \<Rightarrow> string" where
  "quote_plus s = concat (map quote_char s)"

subsection \<open>Dictionary access\<close>

text \<open>\<^verbatim>\<open>d[k]\<close>, which raises KeyError for an absent key.\<close>

definition item :: "secret_dict \<Rightarrow> string \<Rightarrow> error + json" where
  "item d k = (case map_of d k of None \<Rightarrow> Inl (KeyError (NoKey k)) | Some v \<Rightarrow> Inr v)"

text \<open>\<^verbatim>\<open>d.get(k, default)\<close>; \<^verbatim>\<open>d.get(k)\<close> is \<open>get_default d k JNull\<close>.\<close>

definition get_default :: "secret_dict \<Rightarrow> string \<Rightarrow> json \<Rightarrow> json" where
  "get_default d k dflt = (case map_of d k of None \<Rightarrow> dflt | Some v \<Rightarrow> v)"

text \<open>An exception raised by the first computation ends the whole computation.\<close>

definition bind_err :: "error + 'a \<Rightarrow> ('a \<Rightarrow> error + 'b) \<Rightarrow> error + 'b" where
  "bind_err x f = (case x of Inl e \<Rightarrow> Inl e | Inr v \<Rightarrow> f v)"

section \<open>Connection-string formatter\<close>

text \<open>
  \<^verbatim>\<open>generate_connection_string(secret_dict, new_password)\<close>. An f-string evaluates its
  fields from left to right, so the first absent subscripted key is the one reported.
  The warning written to the log for an unsupported type is not part of the result.
  The two files differ in two places: the MariaDB file has no ampersand between the
  password and \<^verbatim>\<open>ssl=true\<close> in the jdbc form, and it renders the encoded password
  in the dotnet and odbc forms where the PostgreSQL file renders the password as given.
\<close>

definition generate_connection_string_pg :: "secret_dict \<Rightarrow> string \<Rightarrow> error + string" where
  "generate_connection_string_pg secret_dict new_password =
    (let connection_string_type = get_default secret_dict ''connection_string_type'' JNull;
         encoded_password = quote_plus new_password;
         port = py_str (get_default secret_dict ''port'' (JInt 5432));
         dbname = py_str (get_default secret_dict ''dbname'' JNull);
         sslmode = py_str (get_default secret_dict ''sslmode'' JNull);
         schema = py_str (get_default secret_dict ''schema'' (JStr ''public''))
     in
     if connection_string_type = JStr ''jdbc'' then
       bind_err (item secret_dict ''host'') (\<lambda>host.
        bind_err (item secret_dict ''username'') (\<lambda>username.
          Inr (''jdbc:postgresql://'' @ py_str host @ '':'' @ port @ ''/'' @ dbname
               @ ''?user='' @ py_str username @ ''&password='' @ encoded_password
               @ ''&ssl=true&sslmode='' @ sslmode @ ''&schema='' @ schema)))
     else if connection_string_type = JStr ''dotnet'' then
       bind_err (item secret_dict ''host'') (\<lambda>host.
        bind_err (item secret_dict ''username'') (\<lambda>username.
          Inr (''Host='' @ py_str host @ '';Port='' @ port @ '';Database='' @ dbname
               @ '';Username='' @ py_str username @ '';Password='' @ new_password
               @ '';SSL Mode='' @ sslmode @ '';Search Path='' @ schema @ '';'')))
     else if connection_string_type = JStr ''odbc'' then
       bind_err (item secret_dict ''host'') (\<lambda>host.
        bind_err (item secret_dict ''username'') (\<lambda>username.
          Inr (''Driver={PostgreSQL ODBC Driver(UNICODE)};Server='' @ py_str host
               @ '';Port='' @ port @ '';Database='' @ dbname
               @ '';UID='' @ py_str username @ '';PWD='' @ new_password
               @ '';sslmode='' @ sslmode @ '';schema='' @ schema)))
     else if connection_string_type = JStr ''gopq'' then
       bind_err (item secret_dict ''username'') (\<lambda>username.
        bind_err (item secret_dict ''host'') (\<lambda>host.
          Inr (''postgres://'' @ py_str username @ '':'' @ encoded_password
               @ ''@'' @ py_str host @ '':'' @ port @ ''/'' @ dbname
               @ ''?sslmode='' @ sslmode @ ''&schema='' @ schema)))
     else if connection_string_type = JStr ''node-pg''
           \<or> connection_string_type = JStr ''psycopg''
           \<or> connection_string_type = JStr ''rustpg'' then
       bind_err (item secret_dict ''username'') (\<lambda>username.
        bind_err (item secret_dict ''host'') (\<lambda>host.
          Inr (''postgressql://'' @ py_str username @ '':'' @ encoded_password
               @ ''@'' @ py_str host @ '':'' @ port @ ''/'' @ dbname
               @ ''?sslmode='' @ sslmode @ ''&schema='' @ schema)))
     else Inr ''(connection string type not supported)'')"

definition generate_connection_string_my :: "secret_dict \<Rightarrow> string \<Rightarrow> error + string" where
  "generate_connection_string_my secret_dict new_password =
    (let connection_string_type = get_default secret_dict ''connection_string_type'' JNull;
         encoded_password = quote_plus new_password;
         port = py_str (get_default secret_dict ''port'' (JInt 5432));
         dbname = py_str (get_default secret_dict ''dbname'' JNull);
         sslmode = py_str (get_default secret_dict ''sslmode'' JNull);
         schema = py_str (get_default secret_dict ''schema'' (JStr ''public''))
     in
     if connection_string_type = JStr ''jdbc'' then
       bind_err (item secret_dict ''host'') (\<lambda>host.
        bind_err (item secret_dict ''username'') (\<lambda>username.
          Inr (''jdbc:postgresql://'' @ py_str host @ '':'' @ port @ ''/'' @ dbname
               @ ''?user='' @ py_str username @ ''&password='' @ encoded_password
               @ ''ssl=true&sslmode='' @ sslmode @ ''&schema='' @ schema)))
     else if connection_string_type = JStr ''dotnet'' then
       bind_err (item secret_dict ''host'') (\<lambda>host.
        bind_err (item secret_dict ''username'') (\<lambda>username.
          Inr (''Host='' @ py_str host @ '';Port='' @ port @ '';Database='' @ dbname
               @ '';Username='' @ py_str username @ '';Password='' @ encoded_password
               @ '';SSL Mode='' @ sslmode @ '';Search Path='' @ schema @ '';'')))
     else if connection_string_type = JStr ''odbc'' then
       bind_err (item secret_dict ''host'') (\<lambda>host.
        bind_err (item secret_dict ''username'') (\<lambda>username.
          Inr (''Driver={PostgreSQL ODBC Driver(UNICODE)};Server='' @ py_str host
               @ '';Port='' @ port @ '';Database='' @ dbname
               @ '';UID='' @ py_str username @ '';PWD='' @ encoded_password
               @ '';sslmode='' @ sslmode @ '';schema='' @ schema)))
     else if connection_string_type = JStr ''gopq'' then
       bind_err (item secret_dict ''username'') (\<lambda>username.
        bind_err (item secret_dict ''host'') (\<lambda>host.
          Inr (''postgres://'' @ py_str username @ '':'' @ encoded_password
               @ ''@'' @ py_str host @ '':'' @ port @ ''/'' @ dbname
               @ ''?sslmode='' @ sslmode @ ''&schema='' @ schema)))
     else if connection_string_type = JStr ''node-pg''
           \<or> connection_string_type = JStr ''psycopg''
           \<or> connection_string_type = JStr ''rustpg'' then
       bind_err (item secret_dict ''username'') (\<lambda>username.
        bind_err (item secret_dict ''host'') (\<lambda>host.
          Inr (''postgressql://'' @ py_str username @ '':'' @ encoded_password
               @ ''@'' @ py_str host @ '':'' @ port @ ''/'' @ dbname
               @ ''?sslmode='' @ sslmode @ ''&schema='' @ schema)))
     else Inr ''(connection string type not supported)'')"

definition generate_connection_string :: "engine \<Rightarrow> secret_dict \<Rightarrow> string \<Rightarrow> error + string" where
  "generate_connection_string eng =
     (case eng of Postgres \<Rightarrow> generate_connection_string_pg
                | MariaDB \<Rightarrow> generate_connection_string_my)"

section \<open>The world outside the handlers\<close>

text \<open>
  The handlers talk to two collaborators: the database driver and the vault client. Every
  call to either is recorded, in order, in the trace of the world. The answers of the
  database and of the password generator are given by the environment as functions of
  the trace so far, so nothing is assumed about them.
\<close>

datatype conn_request =
    PgConnect json json json json int nat json
      \<comment> \<open>host, user, password, dbname, port, connect_timeout, sslmode\<close>
  | MyConnect json json json int json nat bool
      \<comment> \<open>host, user, password, port, database, connect_timeout, whether the ssl dictionary is passed\<close>

datatype connect_result =
    Connected
  | DriverFailure   \<comment> \<open>the exception class the handler catches: psycopg.Error, pymysql.OperationalError\<close>
  | OtherFailure    \<comment> \<open>any other exception of the driver\<close>

datatype session = Session conn_request

datatype param = Omitted | PyNone | Given string

datatype secret_string = NotJson | JsonObject secret_dict

record password_request =
  ExcludeCharacters :: string
  PasswordLength :: int
  ExcludeNumbers :: bool
  ExcludePunctuation :: bool
  ExcludeUppercase :: bool
  ExcludeLowercase :: bool
  RequireEachIncludedType :: bool

datatype event =
    DescribeSecret
  | GetSecretValue string "string option"
  | GetRandomPassword password_request
  | PutSecretValue string secret_string "string list"
  | UpdateSecretVersionStage string param param
  | Connect conn_request connect_result
  | Execute session string "json list"
  | Commit session
  | Close session

record environment =
  environ :: "(string \<times> string) list"
  db_connect :: "event list \<Rightarrow> conn_request \<Rightarrow> connect_result"
  db_execute :: "event list \<Rightarrow> session \<Rightarrow> string \<Rightarrow> json list \<Rightarrow> bool"
  db_commit :: "event list \<Rightarrow> session \<Rightarrow> bool"
  random_password :: "event list \<Rightarrow> password_request \<Rightarrow> error + string"

text \<open>
  One secret is modelled, so the \<^verbatim>\<open>arn\<close> argument of the source is left out.
  \<open>versions\<close> is the \<^verbatim>\<open>VersionIdsToStages\<close> dictionary, \<open>payloads\<close> holds the
  \<^verbatim>\<open>SecretString\<close> of each version as \<^verbatim>\<open>json.loads\<close> reads it, and
  \<open>rotation_enabled\<close> is the \<^verbatim>\<open>RotationEnabled\<close> entry of the metadata, which may be absent.
\<close>

record world =
  rotation_enabled :: "bool option"
  versions :: "(string \<times> string list) list"
  payloads :: "(string \<times> secret_string) list"
  trace :: "event list"

definition emit :: "event \<Rightarrow> world \<Rightarrow> world" where
  "emit ev w = w\<lparr>trace := trace w @ [ev]\<rparr>"

definition AWSCURRENT :: string where "AWSCURRENT = ''AWSCURRENT''"
definition AWSPENDING :: string where "AWSPENDING = ''AWSPENDING''"
definition AWSPREVIOUS :: string where "AWSPREVIOUS = ''AWSPREVIOUS''"

subsection \<open>Vault client\<close>

text \<open>
  Modelled from the spec: the vault client is an external service, of which the handlers
  only hold a handle. \<^verbatim>\<open>getSecretValue(id, stage, token?)\<close> returns the payload of the
  version that carries the stage (and has the given token, when one is given) and raises
  the not-found condition for an absent triple; a version whose payload was never put is
  absent.
\<close>

definition get_secret_value :: "string \<Rightarrow> string option \<Rightarrow> world \<Rightarrow> (error + secret_string) \<times> world" where
  "get_secret_value stage version_id w =
     (let w' = emit (GetSecretValue stage version_id) w;
          holder = (case version_id of
                      None \<Rightarrow> map_option fst (find (\<lambda>(v, ls). stage \<in> set ls) (versions w))
                    | Some t \<Rightarrow> (case map_of (versions w) t of
                                   None \<Rightarrow> None
                                 | Some ls \<Rightarrow> if stage \<in> set ls then Some t else None))
      in case holder of
           None \<Rightarrow> (Inl ResourceNotFoundException, w')
         | Some v \<Rightarrow> (case map_of (payloads w) v of
                        None \<Rightarrow> (Inl ResourceNotFoundException, w')
                      | Some p \<Rightarrow> (Inr p, w')))"

text \<open>
  Modelled from the spec: a staging label is on at most one version, so attaching it to a
  version takes it from every other one. A version left without a label is no longer
  listed.
\<close>

definition attach_stage :: "string \<Rightarrow> string \<Rightarrow> (string \<times> string list) list \<Rightarrow> (string \<times> string list) list" where
  "attach_stage stage t vs =
     map (\<lambda>(v, ls). (v, if v = t then (if stage \<in> set ls then ls else ls @ [stage])
                         else removeAll stage ls))
         (if t \<in> fst ` set vs then vs else vs @ [(t, [])])"

definition detach_stage :: "string \<Rightarrow> string \<Rightarrow> (string \<times> string list) list \<Rightarrow> (string \<times> string list) list" where
  "detach_stage stage t vs = map (\<lambda>(v, ls). (v, if v = t then removeAll stage ls else ls)) vs"

definition listed :: "(string \<times> string list) list \<Rightarrow> (string \<times> string list) list" where
  "listed vs = filter (\<lambda>(v, ls). ls \<noteq> []) vs"

text \<open>
  Modelled from the spec: \<^verbatim>\<open>putSecretValue(id, token, secretString, stages)\<close> stores the
  payload under the token and attaches the stages to it.
\<close>

definition put_secret_value :: "string \<Rightarrow> secret_string \<Rightarrow> string list \<Rightarrow> world \<Rightarrow> (error + unit) \<times> world" where
  "put_secret_value t p stages w =
     (let w' = emit (PutSecretValue t p stages) w
      in (Inr (), w'\<lparr>payloads := AList.update t p (payloads w),
                      versions := listed (fold (\<lambda>stage. attach_stage stage t) stages (versions w))\<rparr>))"

definition holder_of :: "string \<Rightarrow> (string \<times> string list) list \<Rightarrow> string option" where
  "holder_of stage vs = map_option fst (find (\<lambda>(v, ls). stage \<in> set ls) vs)"

text \<open>
  Modelled from the spec: \<^verbatim>\<open>updateSecretVersionStage(id, stage, moveToToken?, removeFromToken?)\<close>
  moves a label atomically. The client refuses an argument that is passed as \<^verbatim>\<open>None\<close>.
  A label that is on another version moves only when that version is named as the one
  to remove it from; moving AWSCURRENT leaves AWSPREVIOUS on the version it came from.
  Removing a label needs the label to be on the named version.
\<close>

definition update_secret_version_stage :: "string \<Rightarrow> param \<Rightarrow> param \<Rightarrow> world \<Rightarrow> (error + unit) \<times> world" where
  "update_secret_version_stage stage move_to remove_from w =
     (let w' = emit (UpdateSecretVersionStage stage move_to remove_from) w;
          vs = versions w
      in if move_to = PyNone \<or> remove_from = PyNone then (Inl ParamValidationError, w')
         else case move_to of
           Given t \<Rightarrow>
             if t \<notin> fst ` set vs then (Inl ResourceNotFoundException, w')
             else (case holder_of stage vs of
                     None \<Rightarrow>
                       if remove_from = Omitted
                       then (Inr (), w'\<lparr>versions := listed (attach_stage stage t vs)\<rparr>)
                       else (Inl InvalidParameterException, w')
                   | Some h \<Rightarrow>
                       if h = t then (Inr (), w')
                       else if remove_from \<noteq> Given h then (Inl InvalidParameterException, w')
                       else if stage = AWSCURRENT
                       then (Inr (), w'\<lparr>versions := listed (attach_stage AWSPREVIOUS h (attach_stage stage t vs))\<rparr>)
                       else (Inr (), w'\<lparr>versions := listed (attach_stage stage t vs)\<rparr>))
         | _ \<Rightarrow>
             (case remove_from of
                Given r \<Rightarrow>
                  (case map_of vs r of
                     None \<Rightarrow> (Inl ResourceNotFoundException, w')
                   | Some ls \<Rightarrow>
                       if stage \<in> set ls
                       then (Inr (), w'\<lparr>versions := listed (detach_stage stage r vs)\<rparr>)
                       else (Inl InvalidParameterException, w'))
              | _ \<Rightarrow> (Inl InvalidParameterException, w')))"

section \<open>The handlers\<close>

text \<open>
  A handler function takes the world and returns its result, or the exception it raises,
  together with the world it leaves behind. Log lines are not modelled.
\<close>

definition bind_step :: "(error + 'a) \<times> world \<Rightarrow> ('a \<Rightarrow> world \<Rightarrow> (error + 'b) \<times> world) \<Rightarrow> (error + 'b) \<times> world" where
  "bind_step m f = (case m of (Inl e, w) \<Rightarrow> (Inl e, w) | (Inr v, w) \<Rightarrow> f v w)"

subsection \<open>\<^verbatim>\<open>get_secret_dict\<close>\<close>

definition required_fields :: "string list" where
  "required_fields = [''host'', ''username'', ''password'']"

definition supported_engines :: "json list" where
  "supported_engines = [JStr ''postgres'', JStr ''aurora-postgresql'', JStr ''postgresql'']"

definition engine_ok :: "engine \<Rightarrow> secret_dict \<Rightarrow> bool" where
  "engine_ok eng secret_dict =
     (case map_of secret_dict ''engine'' of
        None \<Rightarrow> False
      | Some e \<Rightarrow> (case eng of Postgres \<Rightarrow> e \<in> set supported_engines
                              | MariaDB \<Rightarrow> e = JStr ''mariadb''))"

text \<open>
  \<^verbatim>\<open>if token:\<close> is false for \<^verbatim>\<open>None\<close> and for the empty string, and then the value is
  fetched by stage alone.
\<close>

definition get_secret_dict :: "engine \<Rightarrow> string \<Rightarrow> string option \<Rightarrow> world \<Rightarrow> (error + secret_dict) \<times> world" where
  "get_secret_dict eng stage token w =
     bind_step (get_secret_value stage (if token = Some [] then None else token) w)
       (\<lambda>plaintext w'.
          case plaintext of
            NotJson \<Rightarrow> (Inl (ValueError JSONDecodeError), w')
          | JsonObject secret_dict \<Rightarrow>
              if \<not> engine_ok eng secret_dict then (Inl (KeyError BadEngine), w')
              else (case find (\<lambda>field. map_of secret_dict field = None) required_fields of
                      Some field \<Rightarrow> (Inl (KeyError (MissingField field)), w')
                    | None \<Rightarrow> (Inr secret_dict, w')))"

subsection \<open>Connection resolver\<close>

text \<open>The port of a record: \<^verbatim>\<open>int(secret_dict['port']) if 'port' in secret_dict else default\<close>.\<close>

definition port_of :: "secret_dict \<Rightarrow> int \<Rightarrow> error + int" where
  "port_of secret_dict dflt = (case map_of secret_dict ''port'' of None \<Rightarrow> Inr dflt | Some v \<Rightarrow> py_int v)"

text \<open>
  One call of the driver's \<^verbatim>\<open>connect\<close> inside the handler's \<^verbatim>\<open>try\<close>: the exception class
  that the handler catches gives no session, any other exception propagates.
\<close>

definition opened :: "connect_result \<Rightarrow> conn_request \<Rightarrow> error + session option" where
  "opened r req =
     (case r of
        Connected \<Rightarrow> Inr (Some (Session req))
      | DriverFailure \<Rightarrow> Inr None
      | OtherFailure \<Rightarrow> Inl DriverError)"

definition try_connect :: "environment \<Rightarrow> conn_request \<Rightarrow> world \<Rightarrow> (error + session option) \<times> world" where
  "try_connect env req w =
     (let r = db_connect env (trace w) req in (opened r req, emit (Connect req r) w))"

definition get_connection_pg :: "environment \<Rightarrow> secret_dict \<Rightarrow> world \<Rightarrow> (error + session option) \<times> world" where
  "get_connection_pg env secret_dict w =
     (case port_of secret_dict 5432 of
        Inl e \<Rightarrow> (Inl e, w)
      | Inr port \<Rightarrow>
          (let dbname = get_default secret_dict ''dbname'' (JStr ''postgres'');
               sslmode = get_default secret_dict ''sslmode'' (JStr ''prefer'')
           in case bind_err (item secret_dict ''host'') (\<lambda>host.
                   bind_err (item secret_dict ''username'') (\<lambda>user.
                   bind_err (item secret_dict ''password'') (\<lambda>password.
                     Inr (PgConnect host user password dbname port 5 sslmode)))) of
                Inl e \<Rightarrow> (Inl e, w)
              | Inr req \<Rightarrow> try_connect env req w))"

definition get_ssl_config :: "secret_dict \<Rightarrow> bool \<times> bool" where
  "get_ssl_config secret_dict =
     (case map_of secret_dict ''ssl'' of
        None \<Rightarrow> (True, True)
      | Some (JBool b) \<Rightarrow> (b, False)
      | Some (JStr s) \<Rightarrow>
          (let ssl = lower s
           in if ssl = ''true'' then (True, False)
              else if ssl = ''false'' then (False, False)
              else (True, True))
      | Some _ \<Rightarrow> (True, True))"

definition connect_and_authenticate :: "environment \<Rightarrow> secret_dict \<Rightarrow> int \<Rightarrow> json \<Rightarrow> bool \<Rightarrow> world \<Rightarrow> (error + session option) \<times> world" where
  "connect_and_authenticate env secret_dict port dbname use_ssl w =
     (case bind_err (item secret_dict ''host'') (\<lambda>host.
           bind_err (item secret_dict ''username'') (\<lambda>user.
           bind_err (item secret_dict ''password'') (\<lambda>password.
             Inr (MyConnect host user password port dbname 5 use_ssl)))) of
        Inl e \<Rightarrow> (Inl e, w)
      | Inr req \<Rightarrow> try_connect env req w)"

definition get_connection_my :: "environment \<Rightarrow> secret_dict \<Rightarrow> world \<Rightarrow> (error + session option) \<times> world" where
  "get_connection_my env secret_dict w =
     (case port_of secret_dict 3306 of
        Inl e \<Rightarrow> (Inl e, w)
      | Inr port \<Rightarrow>
          (let dbname = get_default secret_dict ''dbname'' JNull;
               (use_ssl, fall_back) = get_ssl_config secret_dict
           in bind_step (connect_and_authenticate env secret_dict port dbname use_ssl w)
                (\<lambda>conn w'.
                   if conn \<noteq> None \<or> \<not> fall_back then (Inr conn, w')
                   else connect_and_authenticate env secret_dict port dbname False w')))"

definition get_connection :: "engine \<Rightarrow> environment \<Rightarrow> secret_dict \<Rightarrow> world \<Rightarrow> (error + session option) \<times> world" where
  "get_connection eng = (case eng of Postgres \<Rightarrow> get_connection_pg | MariaDB \<Rightarrow> get_connection_my)"

subsection \<open>The guarded statement block\<close>

text \<open>
  \<^verbatim>\<open>try: with conn.cursor() as cur: cur.execute(...); conn.commit() finally: conn.close()\<close>.
  The statement and its arguments are computed inside the \<^verbatim>\<open>try\<close>, so the session is
  closed on every path.
\<close>

definition execute_and_close :: "environment \<Rightarrow> session \<Rightarrow> error + string \<times> json list \<Rightarrow> world \<Rightarrow> (error + unit) \<times> world" where
  "execute_and_close env conn statement w =
     (case statement of
        Inl e \<Rightarrow> (Inl e, emit (Close conn) w)
      | Inr (stmt, args) \<Rightarrow>
          (let w1 = emit (Execute conn stmt args) w
           in if \<not> db_execute env (trace w) conn stmt args then (Inl DriverError, emit (Close conn) w1)
              else (let w2 = emit (Commit conn) w1
                    in if \<not> db_commit env (trace w1) conn then (Inl DriverError, emit (Close conn) w2)
                       else (Inr (), emit (Close conn) w2))))"

subsection \<open>\<^verbatim>\<open>set_secret\<close>\<close>

definition alter_role :: "secret_dict \<Rightarrow> error + string \<times> json list" where
  "alter_role pending_dict =
     bind_err (item pending_dict ''username'') (\<lambda>username.
     bind_err (item pending_dict ''password'') (\<lambda>password.
       Inr (''ALTER ROLE '' @ py_str username @ '' WITH ENCRYPTED PASSWORD '' @ [CHR 0x27]
              @ py_str password @ [CHR 0x27], [])))"

definition set_secret_pg :: "environment \<Rightarrow> string \<Rightarrow> world \<Rightarrow> (error + unit) \<times> world" where
  "set_secret_pg env token w =
     bind_step (get_secret_dict Postgres AWSPENDING (Some token) w) (\<lambda>pending_dict w1.
     bind_step (get_connection_pg env pending_dict w1) (\<lambda>conn w2.
       case conn of
         Some c \<Rightarrow> (Inr (), emit (Close c) w2)
       | None \<Rightarrow>
           bind_step (get_secret_dict Postgres AWSCURRENT None w2) (\<lambda>current_dict w3.
           bind_step (get_connection_pg env current_dict w3) (\<lambda>conn w4.
           bind_step
             (if conn \<noteq> None then (Inr conn, w4)
              else (case get_secret_dict Postgres AWSPREVIOUS None w4 of
                      (Inr previous_dict, w5) \<Rightarrow> get_connection_pg env previous_dict w5
                    | (Inl e, w5) \<Rightarrow>
                        if e = ResourceNotFoundException then (Inr None, w5) else (Inl e, w5)))
             (\<lambda>conn w6.
                case conn of
                  None \<Rightarrow> (Inl (ValueError UnableToLogin), w6)
                | Some c \<Rightarrow> execute_and_close env c (alter_role pending_dict) w6)))))"

definition is_KeyError :: "error \<Rightarrow> bool" where
  "is_KeyError e = (case e of KeyError _ \<Rightarrow> True | _ \<Rightarrow> False)"

definition set_password :: "secret_dict \<Rightarrow> error + string \<times> json list" where
  "set_password pending_dict =
     bind_err (item pending_dict ''password'') (\<lambda>password.
       Inr (''SET PASSWORD = PASSWORD(%s)'', [password]))"

text \<open>
  \<^verbatim>\<open>previous_dict.pop('ssl', None)\<close>, then the \<^verbatim>\<open>ssl\<close> entry of the current record, if it
  has one, is stored in the previous record.
\<close>

definition with_current_ssl :: "secret_dict \<Rightarrow> secret_dict \<Rightarrow> secret_dict" where
  "with_current_ssl current_dict previous_dict =
     (let d = AList.delete ''ssl'' previous_dict
      in case map_of current_dict ''ssl'' of None \<Rightarrow> d | Some v \<Rightarrow> AList.update ''ssl'' v d)"

text \<open>\<^verbatim>\<open>if a[k] != b[k]: raise ValueError(...)\<close>.\<close>

definition same_field :: "string \<Rightarrow> secret_dict \<Rightarrow> secret_dict \<Rightarrow> value_error \<Rightarrow> world \<Rightarrow> (error + unit) \<times> world" where
  "same_field k a b err w =
     (case bind_err (item a k) (\<lambda>x. bind_err (item b k) (\<lambda>y. Inr (x \<noteq> y))) of
        Inl e \<Rightarrow> (Inl e, w)
      | Inr differ \<Rightarrow> if differ then (Inl (ValueError err), w) else (Inr (), w))"

definition set_secret_my :: "environment \<Rightarrow> string \<Rightarrow> world \<Rightarrow> (error + unit) \<times> world" where
  "set_secret_my env token w =
     bind_step
       (case get_secret_dict MariaDB AWSPREVIOUS None w of
          (Inr d, w0) \<Rightarrow> (Inr (Some d), w0)
        | (Inl e, w0) \<Rightarrow>
            if e = ResourceNotFoundException \<or> is_KeyError e then (Inr None, w0) else (Inl e, w0))
       (\<lambda>previous_dict w0.
     bind_step (get_secret_dict MariaDB AWSCURRENT None w0) (\<lambda>current_dict w1.
     bind_step (get_secret_dict MariaDB AWSPENDING (Some token) w1) (\<lambda>pending_dict w2.
     bind_step (get_connection_my env pending_dict w2) (\<lambda>conn w3.
       case conn of
         Some c \<Rightarrow> (Inr (), emit (Close c) w3)
       | None \<Rightarrow>
           bind_step (same_field ''username'' current_dict pending_dict UserNotCurrent w3) (\<lambda>_ w4.
           bind_step (same_field ''host'' current_dict pending_dict HostNotCurrent w4) (\<lambda>_ w5.
           bind_step (get_connection_my env current_dict w5) (\<lambda>conn w6.
           bind_step
             (if conn = None \<and> previous_dict \<noteq> None \<and> previous_dict \<noteq> Some [] then
                (let previous_dict' = with_current_ssl current_dict (the previous_dict)
                 in bind_step (get_connection_my env previous_dict' w6) (\<lambda>conn w7.
                    bind_step (same_field ''username'' previous_dict' pending_dict UserNotPrevious w7) (\<lambda>_ w8.
                    bind_step (same_field ''host'' previous_dict' pending_dict HostNotPrevious w8) (\<lambda>_ w9.
                      (Inr conn, w9)))))
              else (Inr conn, w6))
             (\<lambda>conn w10.
                case conn of
                  None \<Rightarrow> (Inl (ValueError UnableToLogin), w10)
                | Some c \<Rightarrow> execute_and_close env c (set_password pending_dict) w10))))))))"

definition set_secret :: "engine \<Rightarrow> environment \<Rightarrow> string \<Rightarrow> world \<Rightarrow> (error + unit) \<times> world" where
  "set_secret eng = (case eng of Postgres \<Rightarrow> set_secret_pg | MariaDB \<Rightarrow> set_secret_my)"

subsection \<open>\<^verbatim>\<open>test_secret\<close>\<close>

definition test_secret :: "engine \<Rightarrow> environment \<Rightarrow> string \<Rightarrow> world \<Rightarrow> (error + unit) \<times> world" where
  "test_secret eng env token w =
     bind_step (get_secret_dict eng AWSPENDING (Some token) w) (\<lambda>pending_dict w1.
     bind_step (get_connection eng env pending_dict w1) (\<lambda>conn w2.
       case conn of
         Some c \<Rightarrow> execute_and_close env c (Inr (''SELECT NOW()'', [])) w2
       | None \<Rightarrow> (Inl (ValueError UnableToLoginPending), w2)))"

subsection \<open>\<^verbatim>\<open>finish_secret\<close>\<close>

datatype scan = AlreadyCurrent | CurrentVersion "string option"

text \<open>
  The loop over \<^verbatim>\<open>metadata["VersionIdsToStages"]\<close>: it stops at the first version that
  carries AWSCURRENT, and returns from the handler when that version is the token.
\<close>

fun scan_versions :: "string \<Rightarrow> (string \<times> string list) list \<Rightarrow> scan" where
  "scan_versions token [] = CurrentVersion None"
| "scan_versions token ((version, stages) # rest) =
     (if AWSCURRENT \<in> set stages
      then (if version = token then AlreadyCurrent else CurrentVersion (Some version))
      else scan_versions token rest)"

definition finish_secret :: "string \<Rightarrow> world \<Rightarrow> (error + unit) \<times> world" where
  "finish_secret token w =
     (let w1 = emit DescribeSecret w
      in case scan_versions token (versions w) of
           AlreadyCurrent \<Rightarrow> (Inr (), w1)
         | CurrentVersion current_version \<Rightarrow>
             bind_step (update_secret_version_stage AWSCURRENT (Given token)
                          (case current_version of None \<Rightarrow> PyNone | Some v \<Rightarrow> Given v) w1)
               (\<lambda>_ w2. update_secret_version_stage AWSPENDING Omitted (Given token) w2))"

subsection \<open>\<^verbatim>\<open>create_secret\<close>\<close>

definition get_environment_bool :: "environment \<Rightarrow> string \<Rightarrow> bool \<Rightarrow> bool" where
  "get_environment_bool env variable_name default_value =
     (let variable = (case map_of (environ env) variable_name of
                        None \<Rightarrow> py_str (JBool default_value)
                      | Some v \<Rightarrow> v)
      in lower variable \<in> set [''true'', ''1'', ''y'', ''yes''])"

definition default_exclude_characters :: string where
  "default_exclude_characters = '':/'' @ [CHR 0x22, CHR 0x27, CHR 0x5C] @ ''$%&*()[]{}<>?!.,;|'' @ [CHR 0x60]"

definition get_random_password :: "environment \<Rightarrow> world \<Rightarrow> (error + string) \<times> world" where
  "get_random_password env w =
     (case (case map_of (environ env) ''PASSWORD_LENGTH'' of None \<Rightarrow> Inr 32 | Some s \<Rightarrow> int_of_str s) of
        Inl e \<Rightarrow> (Inl e, w)
      | Inr n \<Rightarrow>
          (let req = \<lparr>ExcludeCharacters =
                        (case map_of (environ env) ''EXCLUDE_CHARACTERS'' of
                           None \<Rightarrow> default_exclude_characters | Some v \<Rightarrow> v),
                      PasswordLength = n,
                      ExcludeNumbers = get_environment_bool env ''EXCLUDE_NUMBERS'' False,
                      ExcludePunctuation = get_environment_bool env ''EXCLUDE_PUNCTUATION'' False,
                      ExcludeUppercase = get_environment_bool env ''EXCLUDE_UPPERCASE'' False,
                      ExcludeLowercase = get_environment_bool env ''EXCLUDE_LOWERCASE'' False,
                      RequireEachIncludedType = get_environment_bool env ''REQUIRE_EACH_INCLUDED_TYPE'' True\<rparr>
           in (random_password env (trace w) req, emit (GetRandomPassword req) w)))"

text \<open>
  The payload that \<^verbatim>\<open>create_secret\<close> puts: the current record with the new password, and
  with a new \<^verbatim>\<open>connection_string\<close> when the record has that key.
\<close>

definition new_payload :: "engine \<Rightarrow> secret_dict \<Rightarrow> string \<Rightarrow> error + secret_dict" where
  "new_payload eng current_dict random_pass =
     (let d = AList.update ''password'' (JStr random_pass) current_dict
      in if map_of d ''connection_string'' \<noteq> None
         then bind_err (generate_connection_string eng d random_pass)
                (\<lambda>cs. Inr (AList.update ''connection_string'' (JStr cs) d))
         else Inr d)"

definition create_secret :: "engine \<Rightarrow> environment \<Rightarrow> string \<Rightarrow> world \<Rightarrow> (error + unit) \<times> world" where
  "create_secret eng env token w =
     bind_step (get_secret_dict eng AWSCURRENT None w) (\<lambda>current_dict w1.
       case get_secret_dict eng AWSPENDING (Some token) w1 of
         (Inr _, w2) \<Rightarrow> (Inr (), w2)
       | (Inl e, w2) \<Rightarrow>
           if e \<noteq> ResourceNotFoundException then (Inl e, w2)
           else bind_step (get_random_password env w2) (\<lambda>random_pass w3.
                  case new_payload eng current_dict random_pass of
                    Inl e \<Rightarrow> (Inl e, w3)
                  | Inr d \<Rightarrow> put_secret_value token (JsonObject d) [AWSPENDING] w3))"

subsection \<open>\<^verbatim>\<open>lambda_handler\<close>\<close>

record invocation =
  SecretId :: string
  ClientRequestToken :: string
  Step :: string

definition lambda_handler :: "engine \<Rightarrow> environment \<Rightarrow> invocation \<Rightarrow> world \<Rightarrow> (error + unit) \<times> world" where
  "lambda_handler eng env event w =
     (let token = ClientRequestToken event; step = Step event
      in case map_of (environ env) ''SECRETS_MANAGER_ENDPOINT'' of
           None \<Rightarrow> (Inl (KeyError (NoKey ''SECRETS_MANAGER_ENDPOINT'')), w)
         | Some endpoint_url \<Rightarrow>
             (let w1 = emit DescribeSecret w
              in if rotation_enabled w = Some False then (Inl (ValueError RotationDisabled), w1)
                 else (case map_of (versions w) token of
                         None \<Rightarrow> (Inl (ValueError NoStage), w1)
                       | Some stages \<Rightarrow>
                           if AWSCURRENT \<in> set stages then (Inr (), w1)
                           else if AWSPENDING \<notin> set stages then (Inl (ValueError NotPending), w1)
                           else if step = ''createSecret'' then create_secret eng env token w1
                           else if step = ''setSecret'' then set_secret eng env token w1
                           else if step = ''testSecret'' then test_secret eng env token w1
                           else if step = ''finishSecret'' then finish_secret token w1
                           else (Inl (ValueError InvalidStep), w1))))"

section \<open>Notions used in the properties\<close>

text \<open>The connection string types that \<^verbatim>\<open>generate_connection_string\<close> has a branch for.\<close>

definition supported_types :: "json set" where
  "supported_types =
     JStr ` {''jdbc'', ''dotnet'', ''odbc'', ''gopq'', ''node-pg'', ''psycopg'', ''rustpg''}"

text \<open>A database that refuses every login, and a vault with nothing in it.\<close>

definition env_down :: environment where
  "env_down = \<lparr>environ = [(''SECRETS_MANAGER_ENDPOINT'', ''https://vault'')],
                db_connect = (\<lambda>tr req. DriverFailure),
                db_execute = (\<lambda>tr c stmt args. True),
                db_commit = (\<lambda>tr c. True),
                random_password = (\<lambda>tr req. Inr ''Fresh-1'')\<rparr>"


text \<open>
  A vault in the middle of a rotation: version \<^verbatim>\<open>v1\<close> is current, version \<^verbatim>\<open>v2\<close>
  is pending and has no payload yet.
\<close>

definition rotating :: world where
  "rotating = \<lparr>rotation_enabled = Some True,
                versions = [(''v1'', [''AWSCURRENT'']), (''v2'', [''AWSPENDING''])],
                payloads = [(''v1'', JsonObject [(''engine'', JStr ''mariadb''), (''host'', JStr ''db1''),
                              (''username'', JStr ''app''), (''password'', JStr ''old''),
                              (''dbname'', JStr ''appdb'')])],
                trace = []\<rparr>"

text \<open>
  A write is a statement or a commit sent to the database, or a put or a label move sent
  to the vault. \<open>new_events w w'\<close> are the events that a run from \<open>w\<close> to \<open>w'\<close>
  added to the trace. A run that only reads leaves the world as it was but for the
  longer trace, which has no write in it.
\<close>

definition is_write :: "event \<Rightarrow> bool" where
  "is_write e =
     (case e of
        Execute c stmt args \<Rightarrow> True
      | Commit c \<Rightarrow> True
      | PutSecretValue t p stages \<Rightarrow> True
      | UpdateSecretVersionStage stage move_to remove_from \<Rightarrow> True
      | _ \<Rightarrow> False)"

definition new_events :: "world \<Rightarrow> world \<Rightarrow> event list" where
  "new_events w w' = drop (length (trace w)) (trace w')"

definition only_reads :: "world \<Rightarrow> world \<Rightarrow> bool" where
  "only_reads w w' = (w' = w\<lparr>trace := trace w @ new_events w w'\<rparr> \<and> (\<forall>e \<in> set (new_events w w'). \<not> is_write e))"

text \<open>
  Concrete vaults and databases for the examples below. \<open>env_accepting pw\<close> is a database
  that accepts exactly the logins with the password \<open>pw\<close>. \<open>staged prev cur pend\<close> is a
  vault whose version \<^verbatim>\<open>v1\<close> is current and \<^verbatim>\<open>v2\<close> pending, with the given payloads;
  version \<^verbatim>\<open>v0\<close> is the previous one, when there is one.
\<close>

definition password_of :: "conn_request \<Rightarrow> json" where
  "password_of req =
     (case req of PgConnect h u p db po t s \<Rightarrow> p | MyConnect h u p po db t s \<Rightarrow> p)"

definition env_accepting :: "string \<Rightarrow> environment" where
  "env_accepting pw =
     \<lparr>environ = [(''SECRETS_MANAGER_ENDPOINT'', ''https://vault'')],
      db_connect = (\<lambda>tr req. if password_of req = JStr pw then Connected else DriverFailure),
      db_execute = (\<lambda>tr c stmt args. True),
      db_commit = (\<lambda>tr c. True),
      random_password = (\<lambda>tr req. Inr ''Fresh-1'')\<rparr>"

definition cred :: "string \<Rightarrow> string \<Rightarrow> string \<Rightarrow> secret_dict \<Rightarrow> secret_dict" where
  "cred engine_tag user pw extra =
     [(''engine'', JStr engine_tag), (''host'', JStr ''db1''), (''username'', JStr user),
      (''password'', JStr pw)] @ extra"

definition staged :: "secret_dict option \<Rightarrow> secret_dict \<Rightarrow> secret_dict option \<Rightarrow> world" where
  "staged prev cur pend =
     \<lparr>rotation_enabled = Some True,
      versions = (case prev of None \<Rightarrow> [] | Some d \<Rightarrow> [(''v0'', [''AWSPREVIOUS''])])
                 @ [(''v1'', [''AWSCURRENT'']), (''v2'', [''AWSPENDING''])],
      payloads = (case prev of None \<Rightarrow> [] | Some d \<Rightarrow> [(''v0'', JsonObject d)])
                 @ [(''v1'', JsonObject cur)]
                 @ (case pend of None \<Rightarrow> [] | Some d \<Rightarrow> [(''v2'', JsonObject d)]),
      trace = []\<rparr>"

text \<open>The world after some more events.\<close>

definition emits :: "event list \<Rightarrow> world \<Rightarrow> world" where
  "emits evs w = w\<lparr>trace := trace w @ evs\<rparr>"

text \<open>The versions that carry a label, in the order in which the vault lists them.\<close>

definition holders :: "string \<Rightarrow> (string \<times> string list) list \<Rightarrow> string list" where
  "holders stage vs = map fst (filter (\<lambda>(v, ls). stage \<in> set ls) vs)"

text \<open>The vault keeps the version identifiers apart and AWSCURRENT on exactly one version.\<close>

definition one_current :: "world \<Rightarrow> bool" where
  "one_current w = (distinct (map fst (versions w)) \<and> length (holders AWSCURRENT (versions w)) = 1)"

text \<open>What the vault holds for a stage and a version, and what \<^verbatim>\<open>get_secret_dict\<close> makes of it.\<close>

definition stored :: "string \<Rightarrow> string option \<Rightarrow> (string \<times> string list) list \<Rightarrow> (string \<times> secret_string) list \<Rightarrow> error + secret_string" where
  "stored stage version_id vs ps =
     (case (case version_id of
              None \<Rightarrow> holder_of stage vs
            | Some t \<Rightarrow> (case map_of vs t of
                           None \<Rightarrow> None
                         | Some ls \<Rightarrow> if stage \<in> set ls then Some t else None)) of
        None \<Rightarrow> Inl ResourceNotFoundException
      | Some v \<Rightarrow> (case map_of ps v of
                     None \<Rightarrow> Inl ResourceNotFoundException
                   | Some p \<Rightarrow> Inr p))"



section \<open>Connection-string formatter: properties\<close>

lemma of_char_lt_256: "(of_char c :: nat) < 256"
  by (cases c) simp

lemma hex_digit_safe: "n < 16 \<Longrightarrow> always_safe (hex_digit n)"
proof -
  assume "n < 16"
  then have "n \<in> {0, 1, 2, 3, 4, 5, 6, 7, 8, 9, 10, 11, 12, 13, 14, 15}"
    by (simp; arith)
  then show ?thesis
    by (auto simp: always_safe_def hex_digit_def)
qed

lemma quote_char_alphabet:
  "set (quote_char c) \<subseteq> {x. always_safe x} \<union> {CHR ''+'', CHR ''%''}"
proof -
  have "(of_char c :: nat) div 16 < 16" "(of_char c :: nat) mod 16 < 16"
    using of_char_lt_256 [of c] by presburger+
  then show ?thesis
    by (auto simp: quote_char_def hex_digit_safe)
qed

lemma quote_plus_alphabet:
  "set (quote_plus s) \<subseteq> {x. always_safe x} \<union> {CHR ''+'', CHR ''%''}"
  using quote_char_alphabet by (fastforce simp: quote_plus_def)

lemma space_not_safe: "\<not> always_safe (CHR '' '')"
  by (simp add: always_safe_def)

lemma quote_plus_space: "quote_plus (a @ '' '' @ b) = quote_plus a @ ''+'' @ quote_plus b"
  by (simp add: quote_plus_def quote_char_def space_not_safe)

lemma str_5432: "str_of_int 5432 = ''5432''"
  by (simp add: str_of_int_def str_of_nat.simps)

lemma generate_connection_string_unsupported:
  "get_default d ''connection_string_type'' JNull \<notin> supported_types
   \<Longrightarrow> generate_connection_string eng d pw = Inr ''(connection string type not supported)''"
  by (cases eng) (simp_all add: generate_connection_string_def generate_connection_string_pg_def
      generate_connection_string_my_def supported_types_def Let_def)

lemma generate_connection_string_jdbc:
  assumes "map_of d ''connection_string_type'' = Some (JStr ''jdbc'')" "map_of d ''port'' = None"
    "map_of d ''host'' = Some h" "map_of d ''username'' = Some u"
  shows "generate_connection_string eng d pw =
     Inr (''jdbc:postgresql://'' @ py_str h @ '':5432/'' @ py_str (get_default d ''dbname'' JNull)
          @ ''?user='' @ py_str u @ ''&password='' @ quote_plus pw
          @ (case eng of Postgres \<Rightarrow> ''&ssl=true'' | MariaDB \<Rightarrow> ''ssl=true'')
          @ ''&sslmode='' @ py_str (get_default d ''sslmode'' JNull)
          @ ''&schema='' @ py_str (get_default d ''schema'' (JStr ''public'')))"
  using assms
  by (cases eng) (simp_all add: generate_connection_string_def generate_connection_string_pg_def
      generate_connection_string_my_def Let_def get_default_def item_def bind_err_def str_5432)

lemma generate_connection_string_uri:
  assumes "map_of d ''connection_string_type'' = Some (JStr t)"
    "t \<in> {''gopq'', ''node-pg'', ''psycopg'', ''rustpg''}"
    "map_of d ''host'' = Some h" "map_of d ''username'' = Some u"
  shows "generate_connection_string eng d pw =
     Inr ((if t = ''gopq'' then ''postgres://'' else ''postgressql://'')
          @ py_str u @ '':'' @ quote_plus pw
          @ ''@'' @ py_str h @ '':'' @ py_str (get_default d ''port'' (JInt 5432))
          @ ''/'' @ py_str (get_default d ''dbname'' JNull)
          @ ''?sslmode='' @ py_str (get_default d ''sslmode'' JNull)
          @ ''&schema='' @ py_str (get_default d ''schema'' (JStr ''public'')))"
  using assms
  by (cases eng) (auto simp add: generate_connection_string_def generate_connection_string_pg_def
      generate_connection_string_my_def Let_def get_default_def item_def bind_err_def)

text \<open>
  C10, as stated, fails: \<^verbatim>\<open>quote_plus\<close> renders a space of the password as a plus sign,
  so the jdbc string of the password \<^verbatim>\<open>p w\<close> has \<^verbatim>\<open>password=p+w\<close> and not
  the percent-encoded \<^verbatim>\<open>password=p%20w\<close>.
\<close>

theorem jdbc_space_is_plus_counterexample:
  "generate_connection_string Postgres
     [(''connection_string_type'', JStr ''jdbc''), (''host'', JStr ''h''),
      (''dbname'', JStr ''d''), (''username'', JStr ''u'')] ''p w''
   = Inr ''jdbc:postgresql://h:5432/d?user=u&password=p+w&ssl=true&sslmode=None&schema=public''
   \<and> generate_connection_string Postgres
     [(''connection_string_type'', JStr ''jdbc''), (''host'', JStr ''h''),
      (''dbname'', JStr ''d''), (''username'', JStr ''u'')] ''p w''
   \<noteq> Inr ''jdbc:postgresql://h:5432/d?user=u&password=p%20w&ssl=true&sslmode=None&schema=public''"
  by (simp add: generate_connection_string_def generate_connection_string_pg_def Let_def
      get_default_def item_def bind_err_def str_5432 quote_plus_def quote_char_def
      always_safe_def)

text \<open>
  C10, amended: the formatter is a function of the record and the new password alone.
  For a connection string type without a branch it returns the sentinel string and
  raises nothing. In the jdbc form with no port the default port 5432 is rendered, and in
  the jdbc and the three URI forms the password segment is \<^verbatim>\<open>quote_plus\<close> of the new
  password: a space is rendered as a plus sign, and the encoded password consists of
  unreserved characters, plus signs and percent escapes only.
\<close>

theorem connection_string_format:
  "(get_default d ''connection_string_type'' JNull \<notin> supported_types
      \<longrightarrow> generate_connection_string eng d pw = Inr ''(connection string type not supported)'')
   \<and> (map_of d ''connection_string_type'' = Some (JStr ''jdbc'') \<and> map_of d ''port'' = None
        \<and> map_of d ''host'' = Some h \<and> map_of d ''username'' = Some u
      \<longrightarrow> generate_connection_string eng d pw =
          Inr (''jdbc:postgresql://'' @ py_str h @ '':5432/'' @ py_str (get_default d ''dbname'' JNull)
               @ ''?user='' @ py_str u @ ''&password='' @ quote_plus pw
               @ (case eng of Postgres \<Rightarrow> ''&ssl=true'' | MariaDB \<Rightarrow> ''ssl=true'')
               @ ''&sslmode='' @ py_str (get_default d ''sslmode'' JNull)
               @ ''&schema='' @ py_str (get_default d ''schema'' (JStr ''public''))))
   \<and> (map_of d ''connection_string_type'' = Some (JStr t)
        \<and> t \<in> {''gopq'', ''node-pg'', ''psycopg'', ''rustpg''}
        \<and> map_of d ''host'' = Some h \<and> map_of d ''username'' = Some u
      \<longrightarrow> generate_connection_string eng d pw =
          Inr ((if t = ''gopq'' then ''postgres://'' else ''postgressql://'')
               @ py_str u @ '':'' @ quote_plus pw
               @ ''@'' @ py_str h @ '':'' @ py_str (get_default d ''port'' (JInt 5432))
               @ ''/'' @ py_str (get_default d ''dbname'' JNull)
               @ ''?sslmode='' @ py_str (get_default d ''sslmode'' JNull)
               @ ''&schema='' @ py_str (get_default d ''schema'' (JStr ''public''))))
   \<and> quote_plus (a @ '' '' @ b) = quote_plus a @ ''+'' @ quote_plus b
   \<and> set (quote_plus pw) \<subseteq> {x. always_safe x} \<union> {CHR ''+'', CHR ''%''}"
  using generate_connection_string_unsupported [of d eng pw]
    generate_connection_string_jdbc [of d h u eng pw]
    generate_connection_string_uri [of d t h u eng pw]
    quote_plus_space [of a b] quote_plus_alphabet [of pw]
  by blast

theorem connection_string_format_witness:
  "generate_connection_string MariaDB
     [(''connection_string_type'', JStr ''mysql''), (''host'', JStr ''h'')] ''p w''
   = Inr ''(connection string type not supported)''
   \<and> generate_connection_string MariaDB
     [(''connection_string_type'', JStr ''jdbc''), (''host'', JStr ''h''),
      (''dbname'', JStr ''d''), (''username'', JStr ''u'')] ''p w''
   = Inr (''jdbc:postgresql://h:5432/d?user=u&password='' @ quote_plus ''p w''
          @ ''ssl=true&sslmode=None&schema=public'')
   \<and> generate_connection_string Postgres
     [(''connection_string_type'', JStr ''gopq''), (''host'', JStr ''h''),
      (''dbname'', JStr ''d''), (''username'', JStr ''u'')] ''p w''
   = Inr (''postgres://u:'' @ quote_plus ''p w'' @ ''@h:5432/d?sslmode=None&schema=public'')
   \<and> quote_plus ''p w'' = ''p+w''"
  using
    connection_string_format [of "[(''connection_string_type'', JStr ''mysql''), (''host'', JStr ''h'')]"
      MariaDB "''p w''" "JStr ''h''" "JStr ''u''" "''gopq''" "''p''" "''w''"]
    connection_string_format [of "[(''connection_string_type'', JStr ''jdbc''), (''host'', JStr ''h''),
      (''dbname'', JStr ''d''), (''username'', JStr ''u'')]"
      MariaDB "''p w''" "JStr ''h''" "JStr ''u''" "''gopq''" "''p''" "''w''"]
    connection_string_format [of "[(''connection_string_type'', JStr ''gopq''), (''host'', JStr ''h''),
      (''dbname'', JStr ''d''), (''username'', JStr ''u'')]"
      Postgres "''p w''" "JStr ''h''" "JStr ''u''" "''gopq''" "''p''" "''w''"]
  by (simp add: get_default_def supported_types_def str_5432 quote_plus_def quote_char_def
      always_safe_def)

section \<open>Connection resolver: properties\<close>





section \<open>Dispatcher: properties\<close>

lemma lambda_handler_unfold:
  assumes "map_of (environ env) ''SECRETS_MANAGER_ENDPOINT'' = Some url"
  shows "lambda_handler eng env event w =
     (let token = ClientRequestToken event; step = Step event; w1 = emit DescribeSecret w
      in if rotation_enabled w = Some False then (Inl (ValueError RotationDisabled), w1)
         else (case map_of (versions w) token of
                 None \<Rightarrow> (Inl (ValueError NoStage), w1)
               | Some stages \<Rightarrow>
                   if AWSCURRENT \<in> set stages then (Inr (), w1)
                   else if AWSPENDING \<notin> set stages then (Inl (ValueError NotPending), w1)
                   else if step = ''createSecret'' then create_secret eng env token w1
                   else if step = ''setSecret'' then set_secret eng env token w1
                   else if step = ''testSecret'' then test_secret eng env token w1
                   else if step = ''finishSecret'' then finish_secret token w1
                   else (Inl (ValueError InvalidStep), w1)))"
  using assms by (simp add: lambda_handler_def Let_def)

text \<open>
  C2: the checks of the dispatcher, in the order in which the source makes them, with the
  vault endpoint configured. Rotation disabled is an error; a token that the vault does not
  list, or lists with no label, is an error; a token labelled AWSCURRENT returns with
  nothing done but the one \<^verbatim>\<open>describe_secret\<close> call of the dispatcher itself; a token not
  labelled AWSPENDING is an error; and for a token labelled AWSPENDING the four step names
  run their handlers and any other step name is an error.
\<close>

theorem lambda_handler_guard:
  assumes "map_of (environ env) ''SECRETS_MANAGER_ENDPOINT'' = Some url"
    and "token = ClientRequestToken event" and "w1 = emit DescribeSecret w"
  shows
   "(rotation_enabled w = Some False
       \<longrightarrow> lambda_handler eng env event w = (Inl (ValueError RotationDisabled), w1))
    \<and> (rotation_enabled w \<noteq> Some False \<and> map_of (versions w) token = None
       \<longrightarrow> lambda_handler eng env event w = (Inl (ValueError NoStage), w1))
    \<and> (rotation_enabled w \<noteq> Some False \<and> map_of (versions w) token = Some []
       \<longrightarrow> lambda_handler eng env event w = (Inl (ValueError NotPending), w1))
    \<and> (\<forall>stages. rotation_enabled w \<noteq> Some False \<and> map_of (versions w) token = Some stages
          \<and> AWSCURRENT \<in> set stages
       \<longrightarrow> lambda_handler eng env event w = (Inr (), w1))
    \<and> (\<forall>stages. rotation_enabled w \<noteq> Some False \<and> map_of (versions w) token = Some stages
          \<and> AWSCURRENT \<notin> set stages \<and> AWSPENDING \<notin> set stages
       \<longrightarrow> lambda_handler eng env event w = (Inl (ValueError NotPending), w1))
    \<and> (\<forall>stages. rotation_enabled w \<noteq> Some False \<and> map_of (versions w) token = Some stages
          \<and> AWSCURRENT \<notin> set stages \<and> AWSPENDING \<in> set stages
       \<longrightarrow> lambda_handler eng env event w =
           (if Step event = ''createSecret'' then create_secret eng env token w1
            else if Step event = ''setSecret'' then set_secret eng env token w1
            else if Step event = ''testSecret'' then test_secret eng env token w1
            else if Step event = ''finishSecret'' then finish_secret token w1
            else (Inl (ValueError InvalidStep), w1)))"
  by (simp add: lambda_handler_unfold [OF assms(1)] assms(2,3) Let_def)

theorem lambda_handler_guard_witness:
  "lambda_handler MariaDB env_down \<lparr>SecretId = ''arn'', ClientRequestToken = ''v1'', Step = ''setSecret''\<rparr>
     rotating = (Inr (), emit DescribeSecret rotating)
   \<and> lambda_handler MariaDB env_down \<lparr>SecretId = ''arn'', ClientRequestToken = ''v2'', Step = ''rotate''\<rparr>
     rotating = (Inl (ValueError InvalidStep), emit DescribeSecret rotating)
   \<and> lambda_handler MariaDB env_down \<lparr>SecretId = ''arn'', ClientRequestToken = ''v2'', Step = ''finishSecret''\<rparr>
     rotating = finish_secret ''v2'' (emit DescribeSecret rotating)
   \<and> lambda_handler MariaDB env_down \<lparr>SecretId = ''arn'', ClientRequestToken = ''v3'', Step = ''setSecret''\<rparr>
     rotating = (Inl (ValueError NoStage), emit DescribeSecret rotating)
   \<and> lambda_handler MariaDB env_down \<lparr>SecretId = ''arn'', ClientRequestToken = ''v2'', Step = ''setSecret''\<rparr>
     (rotating\<lparr>rotation_enabled := Some False\<rparr>)
     = (Inl (ValueError RotationDisabled), emit DescribeSecret (rotating\<lparr>rotation_enabled := Some False\<rparr>))"
  using
    lambda_handler_guard [of env_down "''https://vault''" "''v1''"
      "\<lparr>SecretId = ''arn'', ClientRequestToken = ''v1'', Step = ''setSecret''\<rparr>"
      "emit DescribeSecret rotating" rotating MariaDB]
    lambda_handler_guard [of env_down "''https://vault''" "''v2''"
      "\<lparr>SecretId = ''arn'', ClientRequestToken = ''v2'', Step = ''rotate''\<rparr>"
      "emit DescribeSecret rotating" rotating MariaDB]
    lambda_handler_guard [of env_down "''https://vault''" "''v2''"
      "\<lparr>SecretId = ''arn'', ClientRequestToken = ''v2'', Step = ''finishSecret''\<rparr>"
      "emit DescribeSecret rotating" rotating MariaDB]
    lambda_handler_guard [of env_down "''https://vault''" "''v3''"
      "\<lparr>SecretId = ''arn'', ClientRequestToken = ''v3'', Step = ''setSecret''\<rparr>"
      "emit DescribeSecret rotating" rotating MariaDB]
    lambda_handler_guard [of env_down "''https://vault''" "''v2''"
      "\<lparr>SecretId = ''arn'', ClientRequestToken = ''v2'', Step = ''setSecret''\<rparr>"
      "emit DescribeSecret (rotating\<lparr>rotation_enabled := Some False\<rparr>)"
      "rotating\<lparr>rotation_enabled := Some False\<rparr>" MariaDB]
  by (simp add: env_down_def rotating_def AWSCURRENT_def AWSPENDING_def)

section \<open>Traces of a handler run\<close>

lemma only_readsI:
  "w' = w\<lparr>trace := trace w @ evs\<rparr> \<Longrightarrow> \<forall>e \<in> set evs. \<not> is_write e \<Longrightarrow> only_reads w w'"
  by (simp add: only_reads_def new_events_def)

lemma only_reads_refl: "only_reads w w"
  by (simp add: only_reads_def new_events_def)

lemma only_reads_trans: "only_reads w w1 \<Longrightarrow> only_reads w1 w2 \<Longrightarrow> only_reads w w2"
proof -
  assume a: "only_reads w w1" and b: "only_reads w1 w2"
  define e1 where "e1 = new_events w w1"
  define e2 where "e2 = new_events w1 w2"
  from a have w1: "w1 = w\<lparr>trace := trace w @ e1\<rparr>" and r1: "\<forall>e \<in> set e1. \<not> is_write e"
    by (simp_all add: only_reads_def e1_def)
  from b have w2: "w2 = w1\<lparr>trace := trace w1 @ e2\<rparr>" and r2: "\<forall>e \<in> set e2. \<not> is_write e"
    by (simp_all add: only_reads_def e2_def)
  have "w2 = w\<lparr>trace := trace w @ (e1 @ e2)\<rparr>"
    by (subst w2, subst (1 2) w1) simp
  then show ?thesis
    using r1 r2 by (intro only_readsI [where evs = "e1 @ e2"]) auto
qed

lemma only_reads_emit: "\<not> is_write e \<Longrightarrow> only_reads w (emit e w)"
  by (rule only_readsI [where evs = "[e]"]) (simp_all add: emit_def)

lemma get_secret_value_world:
  "snd (get_secret_value stage vid w) = emit (GetSecretValue stage vid) w"
  by (simp add: get_secret_value_def Let_def split: option.splits)

lemma get_secret_dict_world:
  "get_secret_dict eng stage token w = (r, w') \<Longrightarrow>
   w' = emit (GetSecretValue stage (if token = Some [] then None else token)) w"
  using get_secret_value_world [of stage "if token = Some [] then None else token" w]
  by (cases "get_secret_value stage (if token = Some [] then None else token) w")
     (auto simp: get_secret_dict_def bind_step_def split: sum.splits secret_string.splits if_splits option.splits)

lemma get_secret_dict_reads:
  "get_secret_dict eng stage token w = (r, w') \<Longrightarrow> only_reads w w'"
  by (drule get_secret_dict_world) (simp add: only_reads_emit is_write_def)

lemma get_secret_dict_valid:
  assumes "get_secret_dict eng stage token w = (Inr d, w')"
  shows "engine_ok eng d \<and> (\<exists>h u p. map_of d ''host'' = Some h \<and> map_of d ''username'' = Some u \<and> map_of d ''password'' = Some p)"
  using assms
  by (cases "get_secret_value stage (if token = Some [] then None else token) w")
     (auto simp: get_secret_dict_def bind_step_def required_fields_def split: sum.splits secret_string.splits if_splits option.splits)

lemma try_connect_reads: "try_connect env req w = (r, w') \<Longrightarrow> only_reads w w'"
  by (auto simp: try_connect_def Let_def only_reads_emit is_write_def)

lemma get_connection_pg_reads:
  "get_connection_pg env d w = (r, w') \<Longrightarrow> only_reads w w'"
  by (auto simp: get_connection_pg_def Let_def only_reads_refl split: sum.splits dest: try_connect_reads)

lemma connect_and_authenticate_reads:
  "connect_and_authenticate env d p db ssl w = (r, w') \<Longrightarrow> only_reads w w'"
  by (auto simp: connect_and_authenticate_def only_reads_refl split: sum.splits dest: try_connect_reads)

lemma get_connection_my_reads:
  "get_connection_my env d w = (r, w') \<Longrightarrow> only_reads w w'"
  by (auto simp: get_connection_my_def Let_def bind_step_def only_reads_refl
      split: sum.splits prod.splits if_splits
      dest!: connect_and_authenticate_reads intro: only_reads_trans)

section \<open>\<^verbatim>\<open>set_secret\<close>: properties\<close>

lemmas run_defs = set_secret_def set_secret_pg_def set_secret_my_def bind_step_def bind_err_def
  get_secret_dict_def get_secret_value_def get_connection_pg_def get_connection_my_def
  connect_and_authenticate_def try_connect_def opened_def port_of_def get_default_def item_def
  engine_ok_def supported_engines_def required_fields_def emit_def execute_and_close_def
  alter_role_def set_password_def same_field_def with_current_ssl_def get_ssl_config_def
  is_KeyError_def AWSCURRENT_def AWSPENDING_def AWSPREVIOUS_def
  env_accepting_def password_of_def cred_def staged_def emits_def Let_def

lemma same_field_eval:
  "map_of a k = Some x \<Longrightarrow> map_of b k = Some y \<Longrightarrow>
   same_field k a b err w = (if x \<noteq> y then (Inl (ValueError err), w) else (Inr (), w))"
  by (simp add: same_field_def item_def bind_err_def)

text \<open>The first four calls of the MariaDB \<^verbatim>\<open>set_secret\<close>, up to the first login attempt.\<close>

lemma set_secret_my_prefix:
  assumes "get_secret_dict MariaDB AWSPREVIOUS None w = (r0, w0)"
    and "\<forall>e. r0 = Inl e \<longrightarrow> e = ResourceNotFoundException \<or> is_KeyError e"
    and "get_secret_dict MariaDB AWSCURRENT None w0 = (Inr current_dict, w1)"
    and "get_secret_dict MariaDB AWSPENDING (Some token) w1 = (Inr pending_dict, w2)"
    and "get_connection_my env pending_dict w2 = (rc, w3)"
  shows "only_reads w w3"
    and "\<exists>hc uc hp up. map_of current_dict ''host'' = Some hc \<and> map_of current_dict ''username'' = Some uc
          \<and> map_of pending_dict ''host'' = Some hp \<and> map_of pending_dict ''username'' = Some up"
proof -
  have "only_reads w w0" "only_reads w0 w1" "only_reads w1 w2" "only_reads w2 w3"
    using assms by (auto dest: get_secret_dict_reads get_connection_my_reads)
  then show "only_reads w w3" by (blast intro: only_reads_trans)
  from get_secret_dict_valid [OF assms(3)] get_secret_dict_valid [OF assms(4)]
  show "\<exists>hc uc hp up. map_of current_dict ''host'' = Some hc \<and> map_of current_dict ''username'' = Some uc
          \<and> map_of pending_dict ''host'' = Some hp \<and> map_of pending_dict ''username'' = Some up"
    by blast
qed


lemma with_current_ssl_map:
  "map_of (with_current_ssl current_dict previous_dict) =
     (map_of previous_dict)(''ssl'' := map_of current_dict ''ssl'')"
  by (cases "map_of current_dict ''ssl''")
     (simp_all add: with_current_ssl_def Let_def update_conv' delete_conv')

lemma get_ssl_config_cong:
  "map_of a ''ssl'' = map_of b ''ssl'' \<Longrightarrow> get_ssl_config a = get_ssl_config b"
  by (simp add: get_ssl_config_def)

lemma mariadb_previous_fallback:
  assumes "get_secret_dict MariaDB AWSPREVIOUS None w = (Inr previous_dict, w0)"
    and "get_secret_dict MariaDB AWSCURRENT None w0 = (Inr current_dict, w1)"
    and "get_secret_dict MariaDB AWSPENDING (Some token) w1 = (Inr pending_dict, w2)"
    and "get_connection_my env pending_dict w2 = (Inr None, w3)"
    and "map_of current_dict ''username'' = map_of pending_dict ''username''"
    and "map_of current_dict ''host'' = map_of pending_dict ''host''"
    and "get_connection_my env current_dict w3 = (Inr None, w4)"
    and "get_connection_my env (with_current_ssl current_dict previous_dict) w4 = (rc, w5)"
  shows "map_of (with_current_ssl current_dict previous_dict) ''ssl'' = map_of current_dict ''ssl''
    \<and> (\<forall>k. k \<noteq> ''ssl'' \<longrightarrow> map_of (with_current_ssl current_dict previous_dict) k = map_of previous_dict k)
    \<and> get_ssl_config (with_current_ssl current_dict previous_dict) = get_ssl_config current_dict
    \<and> set_secret MariaDB env token w =
        (case rc of
           Inl e \<Rightarrow> (Inl e, w5)
         | Inr conn \<Rightarrow>
             if map_of previous_dict ''username'' \<noteq> map_of pending_dict ''username''
             then (Inl (ValueError UserNotPrevious), w5)
             else if map_of previous_dict ''host'' \<noteq> map_of pending_dict ''host''
             then (Inl (ValueError HostNotPrevious), w5)
             else (case conn of
                     None \<Rightarrow> (Inl (ValueError UnableToLogin), w5)
                   | Some c \<Rightarrow> execute_and_close env c (set_password pending_dict) w5))"
proof -
  let ?p = "with_current_ssl current_dict previous_dict"
  have m: "map_of ?p ''ssl'' = map_of current_dict ''ssl''"
    "\<forall>k. k \<noteq> ''ssl'' \<longrightarrow> map_of ?p k = map_of previous_dict k"
    by (simp_all add: with_current_ssl_map)
  from get_secret_dict_valid [OF assms(1)] obtain h0 u0 where
    p: "map_of previous_dict ''host'' = Some h0" "map_of previous_dict ''username'' = Some u0"
    by blast
  then have ne: "previous_dict \<noteq> []" by auto
  from p m have p': "map_of ?p ''host'' = Some h0" "map_of ?p ''username'' = Some u0"
    by simp_all
  from get_secret_dict_valid [OF assms(2)] get_secret_dict_valid [OF assms(3)] obtain hc uc hp up where
    f: "map_of current_dict ''host'' = Some hc" "map_of current_dict ''username'' = Some uc"
       "map_of pending_dict ''host'' = Some hp" "map_of pending_dict ''username'' = Some up"
    by blast
  have run: "set_secret MariaDB env token w =
        (case rc of
           Inl e \<Rightarrow> (Inl e, w5)
         | Inr conn \<Rightarrow>
             if map_of previous_dict ''username'' \<noteq> map_of pending_dict ''username''
             then (Inl (ValueError UserNotPrevious), w5)
             else if map_of previous_dict ''host'' \<noteq> map_of pending_dict ''host''
             then (Inl (ValueError HostNotPrevious), w5)
             else (case conn of
                     None \<Rightarrow> (Inl (ValueError UnableToLogin), w5)
                   | Some c \<Rightarrow> execute_and_close env c (set_password pending_dict) w5))"
    using assms f p ne
    by (cases rc)
       (auto simp: set_secret_def set_secret_my_def bind_step_def Let_def
          same_field_eval [OF f(2) f(4)] same_field_eval [OF f(1) f(3)]
          same_field_eval [OF p'(2) f(4)] same_field_eval [OF p'(1) f(3)]
          split: option.splits)
  from m run get_ssl_config_cong [OF m(1)] show ?thesis by blast
qed

text \<open>
  C4: when the login with the pending record succeeds, \<^verbatim>\<open>set_secret\<close> closes that
  session and returns at once. Nothing was written: the run only reads, so the vault is
  as it was, and the trace has gained no statement, no commit and no vault write. In the
  PostgreSQL file the pending record is the first thing fetched; in the MariaDB file the
  previous, current and pending records are fetched first, where a missing or invalid
  previous record is passed over.
\<close>

theorem set_secret_pending_live:
  "(get_secret_dict Postgres AWSPENDING (Some token) w = (Inr pending_dict, w1)
      \<and> get_connection_pg env pending_dict w1 = (Inr (Some c), w2)
     \<longrightarrow> set_secret Postgres env token w = (Inr (), emit (Close c) w2)
         \<and> only_reads w (emit (Close c) w2))
   \<and> (get_secret_dict MariaDB AWSPREVIOUS None w = (r0, m0)
      \<and> (\<forall>e. r0 = Inl e \<longrightarrow> e = ResourceNotFoundException \<or> is_KeyError e)
      \<and> get_secret_dict MariaDB AWSCURRENT None m0 = (Inr current_dict, m1)
      \<and> get_secret_dict MariaDB AWSPENDING (Some token) m1 = (Inr pending_dict, m2)
      \<and> get_connection_my env pending_dict m2 = (Inr (Some c), m3)
     \<longrightarrow> set_secret MariaDB env token w = (Inr (), emit (Close c) m3)
         \<and> only_reads w (emit (Close c) m3))"
proof (intro conjI impI)
  assume h: "get_secret_dict Postgres AWSPENDING (Some token) w = (Inr pending_dict, w1)
      \<and> get_connection_pg env pending_dict w1 = (Inr (Some c), w2)"
  then show "set_secret Postgres env token w = (Inr (), emit (Close c) w2)"
    by (simp add: set_secret_def set_secret_pg_def bind_step_def)
  from h have "only_reads w w1" "only_reads w1 w2"
    by (auto dest: get_secret_dict_reads get_connection_pg_reads)
  moreover have "only_reads w2 (emit (Close c) w2)"
    by (simp add: only_reads_emit is_write_def)
  ultimately show "only_reads w (emit (Close c) w2)"
    by (blast intro: only_reads_trans)
next
  assume h: "get_secret_dict MariaDB AWSPREVIOUS None w = (r0, m0)
      \<and> (\<forall>e. r0 = Inl e \<longrightarrow> e = ResourceNotFoundException \<or> is_KeyError e)
      \<and> get_secret_dict MariaDB AWSCURRENT None m0 = (Inr current_dict, m1)
      \<and> get_secret_dict MariaDB AWSPENDING (Some token) m1 = (Inr pending_dict, m2)
      \<and> get_connection_my env pending_dict m2 = (Inr (Some c), m3)"
  then show "set_secret MariaDB env token w = (Inr (), emit (Close c) m3)"
    by (cases r0) (simp_all add: set_secret_def set_secret_my_def bind_step_def)
  from h have "only_reads w m3"
    by (intro set_secret_my_prefix(1)) auto
  moreover have "only_reads m3 (emit (Close c) m3)"
    by (simp add: only_reads_emit is_write_def)
  ultimately show "only_reads w (emit (Close c) m3)"
    by (blast intro: only_reads_trans)
qed

theorem set_secret_pending_live_witness:
  "set_secret Postgres (env_accepting ''new'') ''v2''
     (staged None (cred ''postgres'' ''app'' ''old'' []) (Some (cred ''postgres'' ''app'' ''new'' [])))
   = (Inr (),
      emits [GetSecretValue ''AWSPENDING'' (Some ''v2''),
             Connect (PgConnect (JStr ''db1'') (JStr ''app'') (JStr ''new'') (JStr ''postgres'') 5432 5 (JStr ''prefer'')) Connected,
             Close (Session (PgConnect (JStr ''db1'') (JStr ''app'') (JStr ''new'') (JStr ''postgres'') 5432 5 (JStr ''prefer'')))]
        (staged None (cred ''postgres'' ''app'' ''old'' []) (Some (cred ''postgres'' ''app'' ''new'' []))))
   \<and> set_secret MariaDB (env_accepting ''new'') ''v2''
     (staged None (cred ''mariadb'' ''app'' ''old'' []) (Some (cred ''mariadb'' ''app'' ''new'' [])))
   = (Inr (),
      emits [GetSecretValue ''AWSPREVIOUS'' None, GetSecretValue ''AWSCURRENT'' None,
             GetSecretValue ''AWSPENDING'' (Some ''v2''),
             Connect (MyConnect (JStr ''db1'') (JStr ''app'') (JStr ''new'') 3306 JNull 5 True) Connected,
             Close (Session (MyConnect (JStr ''db1'') (JStr ''app'') (JStr ''new'') 3306 JNull 5 True))]
        (staged None (cred ''mariadb'' ''app'' ''old'' []) (Some (cred ''mariadb'' ''app'' ''new'' []))))"
  using
    set_secret_pending_live [where env = "env_accepting ''new''" and token = "''v2''"
      and w = "staged None (cred ''postgres'' ''app'' ''old'' []) (Some (cred ''postgres'' ''app'' ''new'' []))"
      and pending_dict = "cred ''postgres'' ''app'' ''new'' []"
      and ?w1.0 = "emits [GetSecretValue ''AWSPENDING'' (Some ''v2'')]
         (staged None (cred ''postgres'' ''app'' ''old'' []) (Some (cred ''postgres'' ''app'' ''new'' [])))"
      and c = "Session (PgConnect (JStr ''db1'') (JStr ''app'') (JStr ''new'') (JStr ''postgres'') 5432 5 (JStr ''prefer''))"
      and ?w2.0 = "emits [GetSecretValue ''AWSPENDING'' (Some ''v2''),
             Connect (PgConnect (JStr ''db1'') (JStr ''app'') (JStr ''new'') (JStr ''postgres'') 5432 5 (JStr ''prefer'')) Connected]
         (staged None (cred ''postgres'' ''app'' ''old'' []) (Some (cred ''postgres'' ''app'' ''new'' [])))"]
    set_secret_pending_live [where env = "env_accepting ''new''" and token = "''v2''"
      and w = "staged None (cred ''mariadb'' ''app'' ''old'' []) (Some (cred ''mariadb'' ''app'' ''new'' []))"
      and ?r0.0 = "Inl ResourceNotFoundException"
      and ?m0.0 = "emits [GetSecretValue ''AWSPREVIOUS'' None]
         (staged None (cred ''mariadb'' ''app'' ''old'' []) (Some (cred ''mariadb'' ''app'' ''new'' [])))"
      and current_dict = "cred ''mariadb'' ''app'' ''old'' []"
      and ?m1.0 = "emits [GetSecretValue ''AWSPREVIOUS'' None, GetSecretValue ''AWSCURRENT'' None]
         (staged None (cred ''mariadb'' ''app'' ''old'' []) (Some (cred ''mariadb'' ''app'' ''new'' [])))"
      and pending_dict = "cred ''mariadb'' ''app'' ''new'' []"
      and ?m2.0 = "emits [GetSecretValue ''AWSPREVIOUS'' None, GetSecretValue ''AWSCURRENT'' None,
             GetSecretValue ''AWSPENDING'' (Some ''v2'')]
         (staged None (cred ''mariadb'' ''app'' ''old'' []) (Some (cred ''mariadb'' ''app'' ''new'' [])))"
      and c = "Session (MyConnect (JStr ''db1'') (JStr ''app'') (JStr ''new'') 3306 JNull 5 True)"
      and ?m3.0 = "emits [GetSecretValue ''AWSPREVIOUS'' None, GetSecretValue ''AWSCURRENT'' None,
             GetSecretValue ''AWSPENDING'' (Some ''v2''),
             Connect (MyConnect (JStr ''db1'') (JStr ''app'') (JStr ''new'') 3306 JNull 5 True) Connected]
         (staged None (cred ''mariadb'' ''app'' ''old'' []) (Some (cred ''mariadb'' ''app'' ''new'' [])))"]
  by (simp add: run_defs)







text \<open>
  C3: when the logins with the pending and the current record have failed, a previous
  record that the vault does not have (the not-found condition) is no error of its own:
  the step ends with the ValueError that no login was possible. The same holds when
  there is a previous record and the login with it fails too (in the MariaDB file the
  ValueError may then be the one of the comparison with the pending record). In each case
  the run only reads: no statement was sent to the database.
\<close>

theorem set_secret_no_login:
  "(get_secret_dict Postgres AWSPENDING (Some token) w = (Inr pending_dict, w1)
      \<and> get_connection_pg env pending_dict w1 = (Inr None, w2)
      \<and> get_secret_dict Postgres AWSCURRENT None w2 = (Inr current_dict, w3)
      \<and> get_connection_pg env current_dict w3 = (Inr None, w4)
      \<and> get_secret_dict Postgres AWSPREVIOUS None w4 = (rp, w5)
     \<longrightarrow> (rp = Inl ResourceNotFoundException
            \<longrightarrow> set_secret Postgres env token w = (Inl (ValueError UnableToLogin), w5)
                \<and> only_reads w w5)
         \<and> (\<forall>previous_dict. rp = Inr previous_dict
               \<and> get_connection_pg env previous_dict w5 = (Inr None, w6)
            \<longrightarrow> set_secret Postgres env token w = (Inl (ValueError UnableToLogin), w6)
                \<and> only_reads w w6))
   \<and> (get_secret_dict MariaDB AWSPREVIOUS None w = (r0, m0)
      \<and> get_secret_dict MariaDB AWSCURRENT None m0 = (Inr current_dict, m1)
      \<and> get_secret_dict MariaDB AWSPENDING (Some token) m1 = (Inr pending_dict, m2)
      \<and> get_connection_my env pending_dict m2 = (Inr None, m3)
      \<and> map_of current_dict ''username'' = map_of pending_dict ''username''
      \<and> map_of current_dict ''host'' = map_of pending_dict ''host''
      \<and> get_connection_my env current_dict m3 = (Inr None, m4)
     \<longrightarrow> (r0 = Inl ResourceNotFoundException
            \<longrightarrow> set_secret MariaDB env token w = (Inl (ValueError UnableToLogin), m4)
                \<and> only_reads w m4)
         \<and> (\<forall>previous_dict. r0 = Inr previous_dict
               \<and> get_connection_my env (with_current_ssl current_dict previous_dict) m4 = (Inr None, m5)
            \<longrightarrow> (\<exists>err. set_secret MariaDB env token w = (Inl (ValueError err), m5)
                       \<and> err \<in> {UserNotPrevious, HostNotPrevious, UnableToLogin})
                \<and> only_reads w m5))"
proof (intro conjI impI allI; (elim conjE)?)
  assume a: "get_secret_dict Postgres AWSPENDING (Some token) w = (Inr pending_dict, w1)"
    "get_connection_pg env pending_dict w1 = (Inr None, w2)"
    "get_secret_dict Postgres AWSCURRENT None w2 = (Inr current_dict, w3)"
    "get_connection_pg env current_dict w3 = (Inr None, w4)"
    "get_secret_dict Postgres AWSPREVIOUS None w4 = (rp, w5)"
  have r: "only_reads w w1" "only_reads w1 w2" "only_reads w2 w3" "only_reads w3 w4" "only_reads w4 w5"
    using a by (auto dest: get_secret_dict_reads get_connection_pg_reads)
  then have r5: "only_reads w w5" by (blast intro: only_reads_trans)
  {
    assume "rp = Inl ResourceNotFoundException"
    with a show "set_secret Postgres env token w = (Inl (ValueError UnableToLogin), w5)"
      by (simp add: set_secret_def set_secret_pg_def bind_step_def)
    show "only_reads w w5" by (rule r5)
  }
  {
    fix previous_dict
    assume b: "rp = Inr previous_dict" "get_connection_pg env previous_dict w5 = (Inr None, w6)"
    with a show "set_secret Postgres env token w = (Inl (ValueError UnableToLogin), w6)"
      by (simp add: set_secret_def set_secret_pg_def bind_step_def)
    from b have "only_reads w5 w6" by (auto dest: get_connection_pg_reads)
    with r5 show "only_reads w w6" by (blast intro: only_reads_trans)
  }
next
  assume a: "get_secret_dict MariaDB AWSPREVIOUS None w = (r0, m0)"
    "get_secret_dict MariaDB AWSCURRENT None m0 = (Inr current_dict, m1)"
    "get_secret_dict MariaDB AWSPENDING (Some token) m1 = (Inr pending_dict, m2)"
    "get_connection_my env pending_dict m2 = (Inr None, m3)"
    "map_of current_dict ''username'' = map_of pending_dict ''username''"
    "map_of current_dict ''host'' = map_of pending_dict ''host''"
    "get_connection_my env current_dict m3 = (Inr None, m4)"
  have r: "only_reads w m0" "only_reads m0 m1" "only_reads m1 m2" "only_reads m2 m3" "only_reads m3 m4"
    using a by (auto dest: get_secret_dict_reads get_connection_my_reads)
  then have r4: "only_reads w m4" by (blast intro: only_reads_trans)
  from get_secret_dict_valid [OF a(2)] get_secret_dict_valid [OF a(3)] obtain hc uc hp up where
    f: "map_of current_dict ''host'' = Some hc" "map_of current_dict ''username'' = Some uc"
       "map_of pending_dict ''host'' = Some hp" "map_of pending_dict ''username'' = Some up"
    by blast
  {
    assume "r0 = Inl ResourceNotFoundException"
    with a f show "set_secret MariaDB env token w = (Inl (ValueError UnableToLogin), m4)"
      by (simp add: set_secret_def set_secret_my_def bind_step_def
          same_field_eval [OF f(2) f(4)] same_field_eval [OF f(1) f(3)])
    show "only_reads w m4" by (rule r4)
  }
  {
    fix previous_dict
    assume b: "r0 = Inr previous_dict"
      "get_connection_my env (with_current_ssl current_dict previous_dict) m4 = (Inr None, m5)"
    from a(1) b(1) have prev: "get_secret_dict MariaDB AWSPREVIOUS None w = (Inr previous_dict, m0)"
      by simp
    from mariadb_previous_fallback [OF prev a(2-7) b(2)]
    show "\<exists>err. set_secret MariaDB env token w = (Inl (ValueError err), m5)
                       \<and> err \<in> {UserNotPrevious, HostNotPrevious, UnableToLogin}"
      by auto
    from b have "only_reads m4 m5" by (auto dest: get_connection_my_reads)
    with r4 show "only_reads w m5" by (blast intro: only_reads_trans)
  }
qed

theorem set_secret_no_login_witness:
  "set_secret Postgres env_down ''v2'' (staged None (cred ''postgres'' ''app'' ''old'' []) (Some (cred ''postgres'' ''app'' ''new'' [])))
   = (Inl (ValueError UnableToLogin), (emits [GetSecretValue ''AWSPENDING'' (Some ''v2''), Connect (PgConnect (JStr ''db1'') (JStr ''app'') (JStr ''new'') (JStr ''postgres'') 5432 5 (JStr ''prefer'')) DriverFailure, GetSecretValue ''AWSCURRENT'' None, Connect (PgConnect (JStr ''db1'') (JStr ''app'') (JStr ''old'') (JStr ''postgres'') 5432 5 (JStr ''prefer'')) DriverFailure, GetSecretValue ''AWSPREVIOUS'' None] (staged None (cred ''postgres'' ''app'' ''old'' []) (Some (cred ''postgres'' ''app'' ''new'' [])))))
   \<and> only_reads (staged None (cred ''postgres'' ''app'' ''old'' []) (Some (cred ''postgres'' ''app'' ''new'' []))) (emits [GetSecretValue ''AWSPENDING'' (Some ''v2''), Connect (PgConnect (JStr ''db1'') (JStr ''app'') (JStr ''new'') (JStr ''postgres'') 5432 5 (JStr ''prefer'')) DriverFailure, GetSecretValue ''AWSCURRENT'' None, Connect (PgConnect (JStr ''db1'') (JStr ''app'') (JStr ''old'') (JStr ''postgres'') 5432 5 (JStr ''prefer'')) DriverFailure, GetSecretValue ''AWSPREVIOUS'' None] (staged None (cred ''postgres'' ''app'' ''old'' []) (Some (cred ''postgres'' ''app'' ''new'' []))))
   \<and> set_secret MariaDB env_down ''v2'' (staged None (cred ''mariadb'' ''app'' ''old'' []) (Some (cred ''mariadb'' ''app'' ''new'' [])))
   = (Inl (ValueError UnableToLogin), (emits [GetSecretValue ''AWSPREVIOUS'' None, GetSecretValue ''AWSCURRENT'' None, GetSecretValue ''AWSPENDING'' (Some ''v2''), Connect (MyConnect (JStr ''db1'') (JStr ''app'') (JStr ''new'') 3306 JNull 5 True) DriverFailure, Connect (MyConnect (JStr ''db1'') (JStr ''app'') (JStr ''new'') 3306 JNull 5 False) DriverFailure, Connect (MyConnect (JStr ''db1'') (JStr ''app'') (JStr ''old'') 3306 JNull 5 True) DriverFailure, Connect (MyConnect (JStr ''db1'') (JStr ''app'') (JStr ''old'') 3306 JNull 5 False) DriverFailure] (staged None (cred ''mariadb'' ''app'' ''old'' []) (Some (cred ''mariadb'' ''app'' ''new'' [])))))
   \<and> only_reads (staged None (cred ''mariadb'' ''app'' ''old'' []) (Some (cred ''mariadb'' ''app'' ''new'' []))) (emits [GetSecretValue ''AWSPREVIOUS'' None, GetSecretValue ''AWSCURRENT'' None, GetSecretValue ''AWSPENDING'' (Some ''v2''), Connect (MyConnect (JStr ''db1'') (JStr ''app'') (JStr ''new'') 3306 JNull 5 True) DriverFailure, Connect (MyConnect (JStr ''db1'') (JStr ''app'') (JStr ''new'') 3306 JNull 5 False) DriverFailure, Connect (MyConnect (JStr ''db1'') (JStr ''app'') (JStr ''old'') 3306 JNull 5 True) DriverFailure, Connect (MyConnect (JStr ''db1'') (JStr ''app'') (JStr ''old'') 3306 JNull 5 False) DriverFailure] (staged None (cred ''mariadb'' ''app'' ''old'' []) (Some (cred ''mariadb'' ''app'' ''new'' []))))"
  using
    set_secret_no_login [where env = env_down and token = "''v2''"
      and w = "(staged None (cred ''postgres'' ''app'' ''old'' []) (Some (cred ''postgres'' ''app'' ''new'' [])))"
      and pending_dict = "(cred ''postgres'' ''app'' ''new'' [])"
      and ?w1.0 = "(emits [GetSecretValue ''AWSPENDING'' (Some ''v2'')] (staged None (cred ''postgres'' ''app'' ''old'' []) (Some (cred ''postgres'' ''app'' ''new'' []))))"
      and ?w2.0 = "(emits [GetSecretValue ''AWSPENDING'' (Some ''v2''), Connect (PgConnect (JStr ''db1'') (JStr ''app'') (JStr ''new'') (JStr ''postgres'') 5432 5 (JStr ''prefer'')) DriverFailure] (staged None (cred ''postgres'' ''app'' ''old'' []) (Some (cred ''postgres'' ''app'' ''new'' []))))"
      and current_dict = "(cred ''postgres'' ''app'' ''old'' [])"
      and ?w3.0 = "(emits [GetSecretValue ''AWSPENDING'' (Some ''v2''), Connect (PgConnect (JStr ''db1'') (JStr ''app'') (JStr ''new'') (JStr ''postgres'') 5432 5 (JStr ''prefer'')) DriverFailure, GetSecretValue ''AWSCURRENT'' None] (staged None (cred ''postgres'' ''app'' ''old'' []) (Some (cred ''postgres'' ''app'' ''new'' []))))"
      and ?w4.0 = "(emits [GetSecretValue ''AWSPENDING'' (Some ''v2''), Connect (PgConnect (JStr ''db1'') (JStr ''app'') (JStr ''new'') (JStr ''postgres'') 5432 5 (JStr ''prefer'')) DriverFailure, GetSecretValue ''AWSCURRENT'' None, Connect (PgConnect (JStr ''db1'') (JStr ''app'') (JStr ''old'') (JStr ''postgres'') 5432 5 (JStr ''prefer'')) DriverFailure] (staged None (cred ''postgres'' ''app'' ''old'' []) (Some (cred ''postgres'' ''app'' ''new'' []))))"
      and rp = "Inl ResourceNotFoundException"
      and ?w5.0 = "(emits [GetSecretValue ''AWSPENDING'' (Some ''v2''), Connect (PgConnect (JStr ''db1'') (JStr ''app'') (JStr ''new'') (JStr ''postgres'') 5432 5 (JStr ''prefer'')) DriverFailure, GetSecretValue ''AWSCURRENT'' None, Connect (PgConnect (JStr ''db1'') (JStr ''app'') (JStr ''old'') (JStr ''postgres'') 5432 5 (JStr ''prefer'')) DriverFailure, GetSecretValue ''AWSPREVIOUS'' None] (staged None (cred ''postgres'' ''app'' ''old'' []) (Some (cred ''postgres'' ''app'' ''new'' []))))"]
    set_secret_no_login [where env = env_down and token = "''v2''"
      and w = "(staged None (cred ''mariadb'' ''app'' ''old'' []) (Some (cred ''mariadb'' ''app'' ''new'' [])))"
      and ?r0.0 = "Inl ResourceNotFoundException"
      and ?m0.0 = "(emits [GetSecretValue ''AWSPREVIOUS'' None] (staged None (cred ''mariadb'' ''app'' ''old'' []) (Some (cred ''mariadb'' ''app'' ''new'' []))))"
      and current_dict = "(cred ''mariadb'' ''app'' ''old'' [])"
      and ?m1.0 = "(emits [GetSecretValue ''AWSPREVIOUS'' None, GetSecretValue ''AWSCURRENT'' None] (staged None (cred ''mariadb'' ''app'' ''old'' []) (Some (cred ''mariadb'' ''app'' ''new'' []))))"
      and pending_dict = "(cred ''mariadb'' ''app'' ''new'' [])"
      and ?m2.0 = "(emits [GetSecretValue ''AWSPREVIOUS'' None, GetSecretValue ''AWSCURRENT'' None, GetSecretValue ''AWSPENDING'' (Some ''v2'')] (staged None (cred ''mariadb'' ''app'' ''old'' []) (Some (cred ''mariadb'' ''app'' ''new'' []))))"
      and ?m3.0 = "(emits [GetSecretValue ''AWSPREVIOUS'' None, GetSecretValue ''AWSCURRENT'' None, GetSecretValue ''AWSPENDING'' (Some ''v2''), Connect (MyConnect (JStr ''db1'') (JStr ''app'') (JStr ''new'') 3306 JNull 5 True) DriverFailure, Connect (MyConnect (JStr ''db1'') (JStr ''app'') (JStr ''new'') 3306 JNull 5 False) DriverFailure] (staged None (cred ''mariadb'' ''app'' ''old'' []) (Some (cred ''mariadb'' ''app'' ''new'' []))))"
      and ?m4.0 = "(emits [GetSecretValue ''AWSPREVIOUS'' None, GetSecretValue ''AWSCURRENT'' None, GetSecretValue ''AWSPENDING'' (Some ''v2''), Connect (MyConnect (JStr ''db1'') (JStr ''app'') (JStr ''new'') 3306 JNull 5 True) DriverFailure, Connect (MyConnect (JStr ''db1'') (JStr ''app'') (JStr ''new'') 3306 JNull 5 False) DriverFailure, Connect (MyConnect (JStr ''db1'') (JStr ''app'') (JStr ''old'') 3306 JNull 5 True) DriverFailure, Connect (MyConnect (JStr ''db1'') (JStr ''app'') (JStr ''old'') 3306 JNull 5 False) DriverFailure] (staged None (cred ''mariadb'' ''app'' ''old'' []) (Some (cred ''mariadb'' ''app'' ''new'' []))))"]
  by (simp add: run_defs env_down_def)

section \<open>Validation errors: properties\<close>










section \<open>\<^verbatim>\<open>finish_secret\<close>: properties\<close>

lemma holder_of_holders:
  "holder_of stage vs = (case holders stage vs of [] \<Rightarrow> None | v # _ \<Rightarrow> Some v)"
  by (induction vs) (auto simp: holder_of_def holders_def)

lemma scan_versions_holders:
  "scan_versions token vs =
     (case holders AWSCURRENT vs of
        [] \<Rightarrow> CurrentVersion None
      | v # _ \<Rightarrow> if v = token then AlreadyCurrent else CurrentVersion (Some v))"
  by (induction vs) (auto simp: holders_def)

lemma holders_member:
  "distinct (map fst vs) \<Longrightarrow> map_of vs t = Some ls \<Longrightarrow> t \<in> set (holders stage vs) \<longleftrightarrow> stage \<in> set ls"
  by (induction vs) (auto simp: holders_def rev_image_eqI split: if_splits)

lemma map_of_relabel:
  "map_of (map (\<lambda>(v, ls). (v, f v ls)) vs) t = map_option (f t) (map_of vs t)"
  by (induction vs) auto

lemma keys_relabel: "map fst (map (\<lambda>(v, ls). (v, f v ls)) vs) = map fst vs"
  by (induction vs) auto

lemma holders_relabel_eq:
  "(\<And>v ls. (v, ls) \<in> set vs \<Longrightarrow> stage \<in> set (f v ls) \<longleftrightarrow> stage \<in> set ls) \<Longrightarrow>
   holders stage (map (\<lambda>(v, ls). (v, f v ls)) vs) = holders stage vs"
  by (induction vs) (auto simp: holders_def)

lemma holders_listed: "holders stage (listed vs) = holders stage vs"
  by (induction vs) (auto simp: holders_def listed_def)

lemma distinct_listed: "distinct (map fst vs) \<Longrightarrow> distinct (map fst (listed vs))"
  by (simp add: listed_def distinct_map_filter)

lemma map_of_listed: "map_of vs t = Some ls \<Longrightarrow> ls \<noteq> [] \<Longrightarrow> map_of (listed vs) t = Some ls"
  unfolding listed_def by (rule map_of_filter_in) auto

lemma holders_key_filter:
  "distinct (map fst vs) \<Longrightarrow> t \<in> fst ` set vs \<Longrightarrow> map fst (filter (\<lambda>(v, ls). v = t) vs) = [t]"
proof (induction vs)
  case Nil
  then show ?case by simp
next
  case (Cons a vs)
  obtain v ls where a: "a = (v, ls)" by (cases a)
  show ?case
  proof (cases "v = t")
    case True
    with Cons.prems a have "filter (\<lambda>(v, ls). v = t) vs = []"
      by (auto simp: filter_empty_conv rev_image_eqI)
    with True a show ?thesis by simp
  next
    case False
    with Cons a show ?thesis by auto
  qed
qed

lemma attach_stage_present:
  "t \<in> fst ` set vs \<Longrightarrow>
   attach_stage stage t vs =
     map (\<lambda>(v, ls). (v, if v = t then (if stage \<in> set ls then ls else ls @ [stage]) else removeAll stage ls)) vs"
  by (simp add: attach_stage_def)

lemma holders_attach_same:
  assumes "distinct (map fst vs)" "t \<in> fst ` set vs"
  shows "holders stage (attach_stage stage t vs) = [t]"
proof -
  have "filter (\<lambda>(v, ls). stage \<in> set ls)
          (map (\<lambda>(v, ls). (v, if v = t then (if stage \<in> set ls then ls else ls @ [stage]) else removeAll stage ls)) vs)
        = map (\<lambda>(v, ls). (v, if v = t then (if stage \<in> set ls then ls else ls @ [stage]) else removeAll stage ls))
            (filter (\<lambda>(v, ls). v = t) vs)"
    by (induction vs) auto
  then have "holders stage (attach_stage stage t vs) = map fst (filter (\<lambda>(v, ls). v = t) vs)"
    using assms(2) by (simp add: holders_def attach_stage_present keys_relabel)
  with holders_key_filter [OF assms] show ?thesis by simp
qed

lemma holders_attach_other:
  "stage \<noteq> stage' \<Longrightarrow> t \<in> fst ` set vs \<Longrightarrow> holders stage (attach_stage stage' t vs) = holders stage vs"
  by (simp add: attach_stage_present holders_relabel_eq)

lemma holders_detach_other:
  "stage \<noteq> stage' \<Longrightarrow> holders stage (detach_stage stage' t vs) = holders stage vs"
  by (simp add: detach_stage_def holders_relabel_eq)

lemma keys_attach: "t \<in> fst ` set vs \<Longrightarrow> map fst (attach_stage stage t vs) = map fst vs"
  by (auto simp: attach_stage_present split: prod.splits)

lemma keys_detach: "map fst (detach_stage stage t vs) = map fst vs"
  by (auto simp: detach_stage_def split: prod.splits)

lemma map_of_attach:
  "t \<in> fst ` set vs \<Longrightarrow>
   map_of (attach_stage stage t vs) k =
     map_option (\<lambda>ls. if k = t then (if stage \<in> set ls then ls else ls @ [stage]) else removeAll stage ls)
       (map_of vs k)"
  by (simp add: attach_stage_present map_of_relabel)

lemma map_of_detach:
  "map_of (detach_stage stage t vs) k =
     map_option (\<lambda>ls. if k = t then removeAll stage ls else ls) (map_of vs k)"
  by (simp add: detach_stage_def map_of_relabel)

lemma stage_names_distinct:
  "AWSCURRENT \<noteq> AWSPENDING" "AWSCURRENT \<noteq> AWSPREVIOUS" "AWSPENDING \<noteq> AWSPREVIOUS"
  by (simp_all add: AWSCURRENT_def AWSPENDING_def AWSPREVIOUS_def)

lemma finish_secret_already:
  assumes "distinct (map fst (versions w))" "holders AWSCURRENT (versions w) = [cur]"
    "map_of (versions w) token = Some stages" "AWSCURRENT \<in> set stages"
  shows "finish_secret token w = (Inr (), emit DescribeSecret w)"
proof -
  from holders_member [OF assms(1,3), of AWSCURRENT] assms(2,4) have "cur = token" by simp
  with assms(2) show ?thesis
    by (simp add: finish_secret_def Let_def scan_versions_holders)
qed

lemma finish_secret_moves:
  assumes d: "distinct (map fst (versions w))" and h: "holders AWSCURRENT (versions w) = [cur]"
    and t: "map_of (versions w) token = Some stages" and nc: "AWSCURRENT \<notin> set stages"
    and p: "AWSPENDING \<in> set stages"
  defines "vs1 \<equiv> listed (attach_stage AWSPREVIOUS cur (attach_stage AWSCURRENT token (versions w)))"
  defines "vs2 \<equiv> listed (detach_stage AWSPENDING token vs1)"
  shows "cur \<noteq> token"
    and "finish_secret token w =
      (Inr (), w\<lparr>trace := trace w @ [DescribeSecret,
                     UpdateSecretVersionStage AWSCURRENT (Given token) (Given cur),
                     UpdateSecretVersionStage AWSPENDING Omitted (Given token)],
                  versions := vs2\<rparr>)"
    and "distinct (map fst vs2)" and "holders AWSCURRENT vs2 = [token]"
    and "\<exists>ls. map_of vs2 token = Some ls \<and> AWSCURRENT \<in> set ls \<and> AWSPENDING \<notin> set ls"
proof -
  let ?vs = "versions w"
  from holders_member [OF d t, of AWSCURRENT] h nc show ne: "cur \<noteq> token" by auto
  from t have tk: "token \<in> fst ` set ?vs" by (metis domI dom_map_of_conv_image_fst)
  have "cur \<in> set (holders AWSCURRENT ?vs)" using h by simp
  then have ck: "cur \<in> fst ` set ?vs" by (auto simp: holders_def)
  let ?a = "attach_stage AWSCURRENT token ?vs"
  let ?b = "attach_stage AWSPREVIOUS cur ?a"
  have ka: "map fst ?a = map fst ?vs" by (rule keys_attach [OF tk])
  then have cka: "cur \<in> fst ` set ?a" using ck by (metis image_set)
  have kb: "map fst ?b = map fst ?vs" using keys_attach [OF cka] ka by simp
  have d1: "distinct (map fst vs1)" unfolding vs1_def using kb d by (simp add: distinct_listed)
  have h1: "holders AWSCURRENT vs1 = [token]"
    unfolding vs1_def
    by (simp add: holders_listed holders_attach_other [OF stage_names_distinct(2) cka]
        holders_attach_same [OF d tk])
  have ma: "map_of ?a token = Some (stages @ [AWSCURRENT])"
    using t nc by (simp add: map_of_attach [OF tk])
  have mb: "map_of ?b token = Some (removeAll AWSPREVIOUS (stages @ [AWSCURRENT]))"
    using ma ne by (simp add: map_of_attach [OF cka])
  have m1: "map_of vs1 token = Some (removeAll AWSPREVIOUS (stages @ [AWSCURRENT]))"
    unfolding vs1_def using mb stage_names_distinct by (intro map_of_listed) auto
  have p1: "AWSPENDING \<in> set (removeAll AWSPREVIOUS (stages @ [AWSCURRENT]))"
    using p stage_names_distinct by auto
  have t1: "token \<in> fst ` set vs1" using m1 by (metis domI dom_map_of_conv_image_fst)
  show d2: "distinct (map fst vs2)"
    unfolding vs2_def using d1 by (simp add: distinct_listed keys_detach)
  show h2: "holders AWSCURRENT vs2 = [token]"
    unfolding vs2_def using h1 stage_names_distinct
    by (simp add: holders_listed holders_detach_other)
  have m2: "map_of vs2 token = Some (removeAll AWSPENDING (removeAll AWSPREVIOUS (stages @ [AWSCURRENT])))"
    unfolding vs2_def using m1 stage_names_distinct
    by (intro map_of_listed) (auto simp: map_of_detach)
  then show "\<exists>ls. map_of vs2 token = Some ls \<and> AWSCURRENT \<in> set ls \<and> AWSPENDING \<notin> set ls"
    using stage_names_distinct by auto
  have scan: "scan_versions token ?vs = CurrentVersion (Some cur)"
    using h ne by (simp add: scan_versions_holders)
  have ho: "holder_of AWSCURRENT ?vs = Some cur"
    using h by (simp add: holder_of_holders)
  have step1: "update_secret_version_stage AWSCURRENT (Given token) (Given cur) (emit DescribeSecret w)
      = (Inr (), w\<lparr>trace := trace w @ [DescribeSecret, UpdateSecretVersionStage AWSCURRENT (Given token) (Given cur)],
                    versions := vs1\<rparr>)"
    using tk ho ne by (simp add: update_secret_version_stage_def Let_def emit_def vs1_def)
  have step2: "update_secret_version_stage AWSPENDING Omitted (Given token)
        (w\<lparr>trace := trace w @ [DescribeSecret, UpdateSecretVersionStage AWSCURRENT (Given token) (Given cur)],
           versions := vs1\<rparr>)
      = (Inr (), w\<lparr>trace := trace w @ [DescribeSecret,
                     UpdateSecretVersionStage AWSCURRENT (Given token) (Given cur),
                     UpdateSecretVersionStage AWSPENDING Omitted (Given token)],
                  versions := vs2\<rparr>)"
    using m1 p1 by (simp add: update_secret_version_stage_def Let_def emit_def vs2_def)
  show "finish_secret token w =
      (Inr (), w\<lparr>trace := trace w @ [DescribeSecret,
                     UpdateSecretVersionStage AWSCURRENT (Given token) (Given cur),
                     UpdateSecretVersionStage AWSPENDING Omitted (Given token)],
                  versions := vs2\<rparr>)"
    using scan step1 step2 by (simp add: finish_secret_def Let_def bind_step_def)
qed

text \<open>
  C6: the vault keeps AWSCURRENT on exactly one version, and the token is a version that
  the vault lists with the label AWSCURRENT or AWSPENDING. If the token carries AWSCURRENT,
  \<^verbatim>\<open>finish_secret\<close> returns after its \<^verbatim>\<open>describe_secret\<close> call with no label moved.
  Otherwise it makes two calls: AWSCURRENT is moved to the token and taken from the version
  \<open>cur\<close> that had it, and AWSPENDING is taken from the token; afterwards the token is the
  one version with AWSCURRENT. Run twice in a row, it succeeds twice, the second run moves
  nothing, and exactly one version carries AWSCURRENT at the end.
\<close>

theorem finish_secret_idempotent:
  assumes "one_current w" and "map_of (versions w) token = Some stages"
    and "AWSCURRENT \<in> set stages \<or> AWSPENDING \<in> set stages"
  shows
   "(AWSCURRENT \<in> set stages \<longrightarrow> finish_secret token w = (Inr (), emit DescribeSecret w))
    \<and> (AWSCURRENT \<notin> set stages \<longrightarrow>
         (\<exists>cur w1. holders AWSCURRENT (versions w) = [cur] \<and> cur \<noteq> token
            \<and> finish_secret token w = (Inr (), w1)
            \<and> new_events w w1 = [DescribeSecret,
                  UpdateSecretVersionStage AWSCURRENT (Given token) (Given cur),
                  UpdateSecretVersionStage AWSPENDING Omitted (Given token)]
            \<and> holders AWSCURRENT (versions w1) = [token]
            \<and> (\<exists>ls. map_of (versions w1) token = Some ls \<and> AWSCURRENT \<in> set ls \<and> AWSPENDING \<notin> set ls)
            \<and> payloads w1 = payloads w))
    \<and> (\<exists>w1 w2. finish_secret token w = (Inr (), w1) \<and> finish_secret token w1 = (Inr (), w2)
            \<and> one_current w2 \<and> holders AWSCURRENT (versions w2) = [token]
            \<and> versions w2 = versions w1 \<and> new_events w1 w2 = [DescribeSecret])"
proof -
  from assms(1) have d: "distinct (map fst (versions w))" by (simp add: one_current_def)
  from assms(1) obtain cur where h: "holders AWSCURRENT (versions w) = [cur]"
    by (auto simp: one_current_def length_Suc_conv)
  show ?thesis
  proof (cases "AWSCURRENT \<in> set stages")
    case True
    from holders_member [OF d assms(2), of AWSCURRENT] h True have ct: "cur = token" by simp
    note f1 = finish_secret_already [OF d h assms(2) True]
    have w1: "versions (emit DescribeSecret w) = versions w" by (simp add: emit_def)
    have f2: "finish_secret token (emit DescribeSecret w) = (Inr (), emit DescribeSecret (emit DescribeSecret w))"
      using d h assms(2) True by (intro finish_secret_already [where cur = cur and stages = stages]) (simp_all add: w1)
    have "one_current (emit DescribeSecret (emit DescribeSecret w))"
      using assms(1) by (simp add: one_current_def emit_def)
    moreover have "holders AWSCURRENT (versions (emit DescribeSecret (emit DescribeSecret w))) = [token]"
      using h ct by (simp add: emit_def)
    moreover have "new_events (emit DescribeSecret w) (emit DescribeSecret (emit DescribeSecret w)) = [DescribeSecret]"
      by (simp add: new_events_def emit_def)
    moreover have "versions (emit DescribeSecret (emit DescribeSecret w)) = versions (emit DescribeSecret w)"
      by (simp add: emit_def)
    ultimately show ?thesis using True f1 f2 by blast
  next
    case False
    with assms(3) have p: "AWSPENDING \<in> set stages" by simp
    define vs2 where "vs2 = listed (detach_stage AWSPENDING token
        (listed (attach_stage AWSPREVIOUS cur (attach_stage AWSCURRENT token (versions w)))))"
    define w1 where "w1 = w\<lparr>trace := trace w @ [DescribeSecret,
                     UpdateSecretVersionStage AWSCURRENT (Given token) (Given cur),
                     UpdateSecretVersionStage AWSPENDING Omitted (Given token)],
                  versions := vs2\<rparr>"
    note m = finish_secret_moves [OF d h assms(2) False p, folded vs2_def, folded w1_def]
    have v1: "versions w1 = vs2" "payloads w1 = payloads w"
      and n1: "new_events w w1 = [DescribeSecret,
                  UpdateSecretVersionStage AWSCURRENT (Given token) (Given cur),
                  UpdateSecretVersionStage AWSPENDING Omitted (Given token)]"
      by (simp_all add: w1_def new_events_def)
    from m(5) obtain ls where ls: "map_of vs2 token = Some ls" "AWSCURRENT \<in> set ls" "AWSPENDING \<notin> set ls"
      by blast
    have f2: "finish_secret token w1 = (Inr (), emit DescribeSecret w1)"
      using m(3,4) ls by (intro finish_secret_already [where cur = token and stages = ls]) (simp_all add: v1)
    have "one_current (emit DescribeSecret w1)"
      using m(3,4) by (simp add: one_current_def emit_def v1)
    moreover have "holders AWSCURRENT (versions (emit DescribeSecret w1)) = [token]"
      using m(4) by (simp add: emit_def v1)
    moreover have "new_events w1 (emit DescribeSecret w1) = [DescribeSecret]"
      by (simp add: new_events_def emit_def)
    moreover have "versions (emit DescribeSecret w1) = versions w1" by (simp add: emit_def)
    ultimately have twice: "\<exists>w1 w2. finish_secret token w = (Inr (), w1) \<and> finish_secret token w1 = (Inr (), w2)
            \<and> one_current w2 \<and> holders AWSCURRENT (versions w2) = [token]
            \<and> versions w2 = versions w1 \<and> new_events w1 w2 = [DescribeSecret]"
      using m(2) f2 by blast
    have "\<exists>cur w1. holders AWSCURRENT (versions w) = [cur] \<and> cur \<noteq> token
            \<and> finish_secret token w = (Inr (), w1)
            \<and> new_events w w1 = [DescribeSecret,
                  UpdateSecretVersionStage AWSCURRENT (Given token) (Given cur),
                  UpdateSecretVersionStage AWSPENDING Omitted (Given token)]
            \<and> holders AWSCURRENT (versions w1) = [token]
            \<and> (\<exists>ls. map_of (versions w1) token = Some ls \<and> AWSCURRENT \<in> set ls \<and> AWSPENDING \<notin> set ls)
            \<and> payloads w1 = payloads w"
      using h m(1,2,4,5) n1 v1 by auto
    with twice False show ?thesis by blast
  qed
qed

theorem finish_secret_idempotent_witness:
  "one_current rotating
   \<and> finish_secret ''v2'' rotating
   = (Inr (), rotating\<lparr>versions := [(''v1'', [''AWSPREVIOUS'']), (''v2'', [''AWSCURRENT''])],
                trace := [DescribeSecret,
                  UpdateSecretVersionStage ''AWSCURRENT'' (Given ''v2'') (Given ''v1''),
                  UpdateSecretVersionStage ''AWSPENDING'' Omitted (Given ''v2'')]\<rparr>)
   \<and> (\<exists>w1 w2. finish_secret ''v2'' rotating = (Inr (), w1) \<and> finish_secret ''v2'' w1 = (Inr (), w2)
         \<and> one_current w2 \<and> holders AWSCURRENT (versions w2) = [''v2''])"
proof -
  have o: "one_current rotating"
    by (simp add: one_current_def holders_def rotating_def AWSCURRENT_def)
  have m: "map_of (versions rotating) ''v2'' = Some [''AWSPENDING'']"
    by (simp add: rotating_def)
  have r: "finish_secret ''v2'' rotating
   = (Inr (), rotating\<lparr>versions := [(''v1'', [''AWSPREVIOUS'']), (''v2'', [''AWSCURRENT''])],
                trace := [DescribeSecret,
                  UpdateSecretVersionStage ''AWSCURRENT'' (Given ''v2'') (Given ''v1''),
                  UpdateSecretVersionStage ''AWSPENDING'' Omitted (Given ''v2'')]\<rparr>)"
    by (simp add: finish_secret_def update_secret_version_stage_def bind_step_def holder_of_def
        attach_stage_def detach_stage_def listed_def emit_def rotating_def Let_def
        AWSCURRENT_def AWSPENDING_def AWSPREVIOUS_def)
  have p: "AWSCURRENT \<in> set [''AWSPENDING''] \<or> AWSPENDING \<in> set [''AWSPENDING'']"
    by (simp add: AWSPENDING_def)
  from finish_secret_idempotent [OF o m p]
  have "\<exists>w1 w2. finish_secret ''v2'' rotating = (Inr (), w1) \<and> finish_secret ''v2'' w1 = (Inr (), w2)
         \<and> one_current w2 \<and> holders AWSCURRENT (versions w2) = [''v2'']"
    by blast
  with o r show ?thesis by blast
qed

section \<open>\<^verbatim>\<open>create_secret\<close>: properties\<close>



lemma stored_error: "stored stage version_id vs ps = Inl e \<Longrightarrow> e = ResourceNotFoundException"
  by (auto simp: stored_def split: option.splits if_splits)


















lemma emits_vault [simp]:
  "versions (emits evs w) = versions w" "payloads (emits evs w) = payloads w"
  "trace (emits evs w) = trace w @ evs"
  by (simp_all add: emits_def)









end
